theory Spec2Isabelle
  imports
    Complex_Main
    "HOL-Library.AList"
    "HOL-Library.Char_ord"
    "HOL-Library.List_Lexorder"
    "HOL-Library.Product_Lexorder"
begin

section \<open>Student activity processor: model of \<^verbatim>\<open>streamlit_app_processing.py\<close>\<close>

text \<open>
  The development embeds \<^verbatim>\<open>_normalize_columns\<close>, \<^verbatim>\<open>_find_col\<close> and
  \<^verbatim>\<open>process_student_data\<close>. A data frame is a list of column labels and a list of rows;
  the file system is a set of directories and a log of written files. The three conversions
  that belong to the data-frame library and not to the program (parsing a date, parsing a
  number out of a string, printing a number) are parameters of the model, collected in the
  record \<open>lib\<close>; every theorem holds for every choice of them, as for every choice of
  the fourth parameter, which tells whether the library holds a column of numbers as
  integers or as floats. The value of a number is a real number: the rounding of binary
  floating point is not modelled, and neither are infinities and \<^verbatim>\<open>NaN\<close> as results of
  float arithmetic. The sum of a column of type \<^verbatim>\<open>int64\<close> is reduced to the signed 64-bit
  range, as \<^verbatim>\<open>Series.sum\<close> does.
\<close>

subsection \<open>Strings\<close>

text \<open>\<^verbatim>\<open>str.lower\<close>, on the ASCII letters.\<close>

definition lower_char :: "char \<Rightarrow> char" where
  "lower_char c =
     (case map_of (zip ''ABCDEFGHIJKLMNOPQRSTUVWXYZ'' ''abcdefghijklmnopqrstuvwxyz'') c of
        Some d \<Rightarrow> d
      | None \<Rightarrow> c)"

definition lower :: "string \<Rightarrow> string" where
  "lower s = map lower_char s"

text \<open>\<^verbatim>\<open>str.isspace\<close> on one character: tab, line feed, vertical tab, form feed, carriage
  return, the four separators 0x1C to 0x1F, and the space.\<close>

definition isspace :: "char \<Rightarrow> bool" where
  "isspace c =
     (c \<in> set [CHR 0x09, CHR 0x0A, CHR 0x0B, CHR 0x0C, CHR 0x0D,
                CHR 0x1C, CHR 0x1D, CHR 0x1E, CHR 0x1F, CHR '' ''])"

text \<open>\<^verbatim>\<open>str.strip()\<close>.\<close>

definition strip :: "string \<Rightarrow> string" where
  "strip s = rev (dropWhile isspace (rev (dropWhile isspace s)))"

text \<open>\<^verbatim>\<open>"".join(s.split())\<close>: the string without its whitespace characters.\<close>

definition remove_ws :: "string \<Rightarrow> string" where
  "remove_ws s = filter (\<lambda>c. \<not> isspace c) s"

text \<open>\<^verbatim>\<open>s.replace(a, b)\<close> for one-character \<open>a\<close> and \<open>b\<close>.\<close>

definition replace_char :: "char \<Rightarrow> char \<Rightarrow> string \<Rightarrow> string" where
  "replace_char a b s = map (\<lambda>c. if c = a then b else c) s"

subsection \<open>Paths\<close>

text \<open>The last component of a POSIX path (\<^verbatim>\<open>Path(p).name\<close>), trailing slashes dropped.\<close>

definition path_name :: "string \<Rightarrow> string" where
  "path_name p =
     rev (takeWhile (\<lambda>c. c \<noteq> CHR ''/'') (dropWhile (\<lambda>c. c = CHR ''/'') (rev p)))"

text \<open>\<^verbatim>\<open>Path(p).suffix\<close>: the text from the last dot of the name on, when that dot is
  neither the first nor the last character of the name; the empty string otherwise.\<close>

definition path_suffix :: "string \<Rightarrow> string" where
  "path_suffix p =
     (let name = path_name p;
          ext = rev (takeWhile (\<lambda>c. c \<noteq> CHR ''.'') (rev name))
      in if CHR ''.'' \<in> set name \<and> ext \<noteq> [] \<and> length ext + 1 < length name
         then CHR ''.'' # ext else [])"

text \<open>\<^verbatim>\<open>os.path.join(d, f)\<close> for two components.\<close>

definition path_join :: "string \<Rightarrow> string \<Rightarrow> string" where
  "path_join d f =
     (if f \<noteq> [] \<and> hd f = CHR ''/'' then f
      else if d = [] \<or> last d = CHR ''/'' then d @ f
      else d @ ''/'' @ f)"

subsection \<open>Cells, data frames, library conversions\<close>

datatype cell = Str string | Num real | Missing

record table =
  columns :: "string list"
  rows :: "cell list list"

record date =
  year :: nat
  month :: nat
  day :: nat

text \<open>
  The library conversions the program calls. \<open>to_datetime\<close> receives the whole column and
  the cell (the library may infer a format from the column) and returns \<open>None\<close> for a
  value it cannot parse (\<^verbatim>\<open>errors="coerce"\<close>). A cell \<open>Num x\<close> holds the value of a
  number, not its machine type (the integer 2 and the float 2.0 are both \<open>Num 2\<close>):
  \<open>int64_dtype\<close> tells, from the cells handed to \<^verbatim>\<open>pd.to_numeric\<close>, whether the library
  holds them as integers, so that the result has the type \<^verbatim>\<open>int64\<close>, or as floating-point
  numbers. Every statement below holds for every such library.
\<close>

record lib =
  to_datetime :: "cell list \<Rightarrow> cell \<Rightarrow> date option"
  parse_number :: "string \<Rightarrow> real option"
  str_number :: "real \<Rightarrow> string"
  int64_dtype :: "cell list \<Rightarrow> bool"

datatype error =
    UnsupportedFileType
  | ColumnNotFound "string list" "string list"
  | FileNotFound string

text \<open>Position of a label among the column labels (the number of labels when absent).\<close>

fun index_of :: "'a \<Rightarrow> 'a list \<Rightarrow> nat" where
  "index_of x [] = 0"
| "index_of x (y # ys) = (if x = y then 0 else Suc (index_of x ys))"

text \<open>A row shorter than the header reads as missing values beyond its end.\<close>

definition cell_at :: "cell list \<Rightarrow> nat \<Rightarrow> cell" where
  "cell_at r i = (if i < length r then r ! i else Missing)"

definition set_cell :: "nat \<Rightarrow> cell \<Rightarrow> cell list \<Rightarrow> cell list" where
  "set_cell i v r = (r @ replicate (Suc i - length r) Missing)[i := v]"

text \<open>
  \<^verbatim>\<open>df[c]\<close> at one row. A label stands for its first column; the data-frame library
  treats a label as one column only when the labels are unique, so the theorems about
  whole runs assume that the stripped labels of the input are pairwise different.
\<close>

definition get_cell :: "table \<Rightarrow> cell list \<Rightarrow> string \<Rightarrow> cell" where
  "get_cell df r c = cell_at r (index_of c (columns df))"

text \<open>\<^verbatim>\<open>df[c] = series\<close> for an existing column \<open>c\<close>, the series given row by row.\<close>

definition assign :: "table \<Rightarrow> string \<Rightarrow> (cell list \<Rightarrow> cell) \<Rightarrow> table" where
  "assign df c f =
     df\<lparr>rows := map (\<lambda>r. set_cell (index_of c (columns df)) (f r) r) (rows df)\<rparr>"

text \<open>\<^verbatim>\<open>df[[c1, ..., cn]]\<close>.\<close>

definition select :: "table \<Rightarrow> string list \<Rightarrow> table" where
  "select df cs = \<lparr>columns = cs, rows = map (\<lambda>r. map (get_cell df r) cs) (rows df)\<rparr>"

text \<open>\<^verbatim>\<open>pd.concat([a, b], ignore_index=True)\<close>: the labels of \<open>a\<close>, then the labels only
  \<open>b\<close> has; a cell of a column the frame does not have is missing.\<close>

definition reindex :: "table \<Rightarrow> string list \<Rightarrow> cell list \<Rightarrow> cell list" where
  "reindex df cs r = map (\<lambda>c. if c \<in> set (columns df) then get_cell df r c else Missing) cs"

definition concat_frames :: "table \<Rightarrow> table \<Rightarrow> table" where
  "concat_frames a b =
     (let cs = columns a @ filter (\<lambda>c. c \<notin> set (columns a)) (columns b)
      in \<lparr>columns = cs, rows = map (reindex a cs) (rows a) @ map (reindex b cs) (rows b)\<rparr>)"

text \<open>\<^verbatim>\<open>astype(str)\<close> and \<^verbatim>\<open>str(x)\<close> of a cell.\<close>

definition astype_str :: "lib \<Rightarrow> cell \<Rightarrow> string" where
  "astype_str L c = (case c of Str s \<Rightarrow> s | Num x \<Rightarrow> str_number L x | Missing \<Rightarrow> ''nan'')"

text \<open>\<^verbatim>\<open>pd.to_numeric(..., errors="coerce")\<close> on one cell, and \<^verbatim>\<open>fillna(0)\<close> after it.\<close>

definition to_numeric :: "lib \<Rightarrow> cell \<Rightarrow> real option" where
  "to_numeric L c = (case c of Num x \<Rightarrow> Some x | Str s \<Rightarrow> parse_number L s | Missing \<Rightarrow> None)"

definition fillna0 :: "real option \<Rightarrow> real" where
  "fillna0 v = (case v of Some x \<Rightarrow> x | None \<Rightarrow> 0)"

text \<open>
  The type of the column after \<^verbatim>\<open>pd.to_numeric(..., errors="coerce").fillna(0)\<close>: it is
  \<^verbatim>\<open>int64\<close> when the library holds the cells as integers and none of them is coerced to
  \<^verbatim>\<open>NaN\<close> (a \<^verbatim>\<open>NaN\<close> makes the column floating point before it is filled).
\<close>

definition coerced_int64 :: "lib \<Rightarrow> cell list \<Rightarrow> bool" where
  "coerced_int64 L series =
     (int64_dtype L series \<and> list_all (\<lambda>c. to_numeric L c \<noteq> None) series)"

text \<open>
  \<^verbatim>\<open>series.sum()\<close> of a numeric column: missing values are skipped. A column of type
  \<^verbatim>\<open>int64\<close> holds integers of the signed 64-bit range and is added in 64-bit two's
  complement, so its sum wraps around silently; a floating-point column is added as real
  numbers (its rounding is not modelled).
\<close>

definition wrap64 :: "int \<Rightarrow> int" where
  "wrap64 z = (z + 2 ^ 63) mod 2 ^ 64 - 2 ^ 63"

definition int64_value :: "real \<Rightarrow> bool" where
  "int64_value x = (real_of_int \<lfloor>x\<rfloor> = x \<and> - (2 ^ 63) \<le> x \<and> x < 2 ^ 63)"

definition series_sum :: "bool \<Rightarrow> real list \<Rightarrow> real" where
  "series_sum int64 xs =
     (if int64 \<and> list_all int64_value xs
      then real_of_int (wrap64 (sum_list (map floor xs)))
      else sum_list xs)"

definition column_values :: "table \<Rightarrow> string \<Rightarrow> real list" where
  "column_values df c = map (\<lambda>r. case get_cell df r c of Num x \<Rightarrow> x | _ \<Rightarrow> 0) (rows df)"

definition column_sum :: "bool \<Rightarrow> table \<Rightarrow> string \<Rightarrow> real" where
  "column_sum int64 df c = series_sum int64 (column_values df c)"

text \<open>\<^verbatim>\<open>str(d)\<close> of a \<^verbatim>\<open>datetime.date\<close>: \<^verbatim>\<open>YYYY-MM-DD\<close>.\<close>

definition digit :: "nat \<Rightarrow> char" where
  "digit n = ''0123456789'' ! (n mod 10)"

definition date_str :: "date \<Rightarrow> string" where
  "date_str d =
     [digit (year d div 1000), digit (year d div 100), digit (year d div 10), digit (year d),
      CHR ''-'', digit (month d div 10), digit (month d),
      CHR ''-'', digit (day d div 10), digit (day d)]"

subsection \<open>The file system\<close>

text \<open>
  \<open>files\<close> is the log of the files written, newest first; the content of a path is the
  newest entry for it (\<open>map_of\<close>). A file holds a table, whatever its format. Failures of
  the operating system (permissions, a full disk, a file name it refuses) are not modelled.
\<close>

record fs =
  dirs :: "string set"
  files :: "(string \<times> table) list"

text \<open>\<^verbatim>\<open>os.makedirs(d, exist_ok=True)\<close>.\<close>

definition makedirs :: "string \<Rightarrow> fs \<Rightarrow> fs" where
  "makedirs d s = s\<lparr>dirs := insert d (dirs s)\<rparr>"

definition read_table :: "fs \<Rightarrow> string \<Rightarrow> error + table" where
  "read_table s p = (case map_of (files s) p of None \<Rightarrow> Inl (FileNotFound p) | Some t \<Rightarrow> Inr t)"

definition read_excel :: "fs \<Rightarrow> string \<Rightarrow> error + table" where
  "read_excel s p = read_table s p"

definition read_csv :: "fs \<Rightarrow> string \<Rightarrow> error + table" where
  "read_csv s p = read_table s p"

text \<open>\<^verbatim>\<open>df.to_excel(path, index=False)\<close>.\<close>

definition to_excel :: "fs \<Rightarrow> string \<Rightarrow> table \<Rightarrow> fs" where
  "to_excel s p t = s\<lparr>files := (p, t) # files s\<rparr>"

text \<open>The paths of the files below directory \<open>d\<close>.\<close>

definition in_dir :: "string \<Rightarrow> string \<Rightarrow> bool" where
  "in_dir d p = (let pre = path_join d [] in length pre < length p \<and> take (length pre) p = pre)"

definition listdir :: "fs \<Rightarrow> string \<Rightarrow> string list" where
  "listdir s d = remdups (filter (in_dir d) (map fst (files s)))"

subsection \<open>\<^verbatim>\<open>_normalize_columns\<close> and \<^verbatim>\<open>_find_col\<close>\<close>

definition normalize_columns :: "table \<Rightarrow> table" where
  "normalize_columns df = df\<lparr>columns := map strip (columns df)\<rparr>"

text \<open>
  \<^verbatim>\<open>lc_map = {c.lower(): c for c in df.columns}\<close>. A Python dictionary keeps a key at the
  position of its first insertion and the value of its last one, which is what
  \<^const>\<open>AList.update\<close> does.
\<close>

definition lc_map :: "string list \<Rightarrow> (string \<times> string) list" where
  "lc_map cs = foldl (\<lambda>m c. AList.update (lower c) c m) [] cs"

text \<open>The first loop: the candidates in order, each looked up in the dictionary.\<close>

primrec first_exact :: "(string \<times> string) list \<Rightarrow> string list \<Rightarrow> string option" where
  "first_exact m [] = None"
| "first_exact m (cand # cands) =
     (case map_of m (lower cand) of Some c \<Rightarrow> Some c | None \<Rightarrow> first_exact m cands)"

text \<open>The second loop: the dictionary keys in order, each compared with every candidate.\<close>

primrec cand_matches :: "string \<Rightarrow> string list \<Rightarrow> bool" where
  "cand_matches key [] = False"
| "cand_matches key (cand # cands) =
     (if remove_ws key = remove_ws (lower cand) then True else cand_matches key cands)"

primrec first_fuzzy :: "(string \<times> string) list \<Rightarrow> string list \<Rightarrow> string option" where
  "first_fuzzy [] cands = None"
| "first_fuzzy (kv # kvs) cands =
     (if cand_matches (fst kv) cands then Some (snd kv) else first_fuzzy kvs cands)"

definition find_col :: "table \<Rightarrow> string list \<Rightarrow> error + string" where
  "find_col df candidates =
     (let m = lc_map (columns df)
      in case first_exact m candidates of
           Some c \<Rightarrow> Inr c
         | None \<Rightarrow>
             (case first_fuzzy m candidates of
                Some c \<Rightarrow> Inr c
              | None \<Rightarrow> Inl (ColumnNotFound candidates (columns df))))"

subsection \<open>\<^verbatim>\<open>process_student_data\<close>\<close>

text \<open>Lines 48 to 54: the reader is chosen by the lower-cased suffix.\<close>

definition load_table :: "fs \<Rightarrow> string \<Rightarrow> error + table" where
  "load_table s input_file =
     (let suffix = lower (path_suffix input_file)
      in if suffix \<in> set [''.xlsx'', ''.xls''] then read_excel s input_file
         else if suffix = ''.csv'' then read_csv s input_file
         else Inl UnsupportedFileType)"

text \<open>Lines 58 to 61: the status column is optional.\<close>

definition transcript_column :: "table \<Rightarrow> string option" where
  "transcript_column df =
     (case find_col df [''Transcript status''] of Inl e \<Rightarrow> None | Inr c \<Rightarrow> Some c)"

text \<open>Lines 63 to 68: the six required columns, resolved in this order.\<close>

record cols =
  col_name :: string
  col_learner :: string
  col_date :: string
  col_duration :: string
  col_title :: string
  col_activity_id :: string

definition resolve_columns :: "table \<Rightarrow> error + cols" where
  "resolve_columns df =
     (case find_col df [''Learner - Name''] of Inl e \<Rightarrow> Inl e | Inr cn \<Rightarrow>
      case find_col df [''Learner - ID''] of Inl e \<Rightarrow> Inl e | Inr cl \<Rightarrow>
      case find_col df [''Completion Date''] of Inl e \<Rightarrow> Inl e | Inr cd \<Rightarrow>
      case find_col df [''Learning activity - Duration''] of Inl e \<Rightarrow> Inl e | Inr cu \<Rightarrow>
      case find_col df [''Learning activity - Title''] of Inl e \<Rightarrow> Inl e | Inr ct \<Rightarrow>
      case find_col df [''Learning activity - ID''] of Inl e \<Rightarrow> Inl e | Inr ca \<Rightarrow>
        Inr \<lparr>col_name = cn, col_learner = cl, col_date = cd, col_duration = cu,
             col_title = ct, col_activity_id = ca\<rparr>)"

text \<open>Lines 70 to 72. \<^verbatim>\<open>if col_transcript:\<close> is false for \<^verbatim>\<open>None\<close> and for the empty
  string.\<close>

definition status_value :: "lib \<Rightarrow> table \<Rightarrow> string \<Rightarrow> cell list \<Rightarrow> string" where
  "status_value L df c r = strip (lower (astype_str L (get_cell df r c)))"

definition filter_completed :: "lib \<Rightarrow> table \<Rightarrow> string option \<Rightarrow> table" where
  "filter_completed L df col_transcript =
     (case col_transcript of
        None \<Rightarrow> df
      | Some c \<Rightarrow>
          if c = [] then df
          else
            (let df1 = assign df c (\<lambda>r. Str (status_value L df c r))
             in df1\<lparr>rows := filter (\<lambda>r. get_cell df1 r c = Str ''completed'') (rows df1)\<rparr>))"

text \<open>Line 74: the date column becomes the date-only string, \<^verbatim>\<open>NaT\<close> for a value that
  does not parse.\<close>

definition date_string :: "lib \<Rightarrow> cell list \<Rightarrow> cell \<Rightarrow> string" where
  "date_string L series c =
     (case to_datetime L series c of None \<Rightarrow> ''NaT'' | Some d \<Rightarrow> date_str d)"

definition normalize_dates :: "lib \<Rightarrow> table \<Rightarrow> string \<Rightarrow> table" where
  "normalize_dates L df c =
     (let series = map (\<lambda>r. get_cell df r c) (rows df)
      in assign df c (\<lambda>r. Str (date_string L series (get_cell df r c))))"

text \<open>
  Line 76: \<^verbatim>\<open>df.groupby([a, b])\<close>. Rows with a missing key are dropped, the groups come in
  ascending key order, and the rows of a group keep their order. Keys are compared numbers
  first, then strings.
\<close>

definition cell_rank :: "cell \<Rightarrow> nat \<times> real \<times> string" where
  "cell_rank c = (case c of Num x \<Rightarrow> (0, x, []) | Str s \<Rightarrow> (1, 0, s) | Missing \<Rightarrow> (2, 0, []))"

definition key_rank :: "cell \<times> cell \<Rightarrow> (nat \<times> real \<times> string) \<times> (nat \<times> real \<times> string)" where
  "key_rank k = (cell_rank (fst k), cell_rank (snd k))"

definition row_key :: "table \<Rightarrow> string \<Rightarrow> string \<Rightarrow> cell list \<Rightarrow> cell \<times> cell" where
  "row_key df a b r = (get_cell df r a, get_cell df r b)"

definition has_key :: "cell \<times> cell \<Rightarrow> bool" where
  "has_key k = (fst k \<noteq> Missing \<and> snd k \<noteq> Missing)"

definition groupby :: "table \<Rightarrow> string \<Rightarrow> string \<Rightarrow> ((cell \<times> cell) \<times> table) list" where
  "groupby df a b =
     (let keys = sort_key key_rank (remdups (filter has_key (map (row_key df a b) (rows df))))
      in map (\<lambda>k. (k, df\<lparr>rows := filter (\<lambda>r. row_key df a b r = k) (rows df)\<rparr>)) keys)"

text \<open>
  Lines 83 to 92: the report of one group. \<open>int64\<close> is the type of the Duration column
  after line 86, which line 89 sums.
\<close>

definition build_report :: "lib \<Rightarrow> cols \<Rightarrow> table \<Rightarrow> table" where
  "build_report L cs grp =
     (let learner_data0 = select grp
            [col_name cs, col_title cs, col_learner cs, col_activity_id cs,
             col_duration cs, col_date cs];
          int64 = coerced_int64 L
            (map (\<lambda>r. get_cell learner_data0 r (col_duration cs)) (rows learner_data0));
          learner_data = assign learner_data0 (col_duration cs)
            (\<lambda>r. Num (fillna0 (to_numeric L (get_cell learner_data0 r (col_duration cs)))));
          total_duration = column_sum int64 learner_data (col_duration cs);
          summary = \<lparr>columns = [col_title cs, col_duration cs],
                     rows = [[Str ''TOTAL'', Num total_duration]]\<rparr>
      in concat_frames learner_data summary)"

text \<open>Lines 94 to 96: the file name of a group.\<close>

definition safe_learner :: "lib \<Rightarrow> cell \<Rightarrow> string" where
  "safe_learner L learner_id = replace_char CHR '' '' CHR ''_'' (astype_str L learner_id)"

definition safe_date :: "lib \<Rightarrow> cell \<Rightarrow> string" where
  "safe_date L date_str0 =
     replace_char CHR '':'' CHR ''-'' (replace_char CHR '' '' CHR ''_'' (astype_str L date_str0))"

definition report_filename :: "lib \<Rightarrow> cell \<Rightarrow> cell \<Rightarrow> string" where
  "report_filename L learner_id date_str0 =
     ''learner_'' @ safe_learner L learner_id @ ''_'' @ safe_date L date_str0 @ ''.xlsx''"

text \<open>Lines 79 to 98: the loop over the groups, on the file system and the counter.\<close>

fun write_groups ::
  "lib \<Rightarrow> cols \<Rightarrow> string \<Rightarrow> ((cell \<times> cell) \<times> table) list \<Rightarrow> fs \<times> nat \<Rightarrow> fs \<times> nat" where
  "write_groups L cs output_dir [] st = st"
| "write_groups L cs output_dir ((key, grp) # rest) (s, files_written) =
     (if length (rows grp) \<le> 50 then write_groups L cs output_dir rest (s, files_written)
      else
        write_groups L cs output_dir rest
          (to_excel s (path_join output_dir (report_filename L (fst key) (snd key)))
             (build_report L cs grp),
           files_written + 1))"

text \<open>
  The function returns the file system it leaves behind together with its outcome: the
  number of files written, or the error raised.
\<close>

definition process_student_data ::
  "lib \<Rightarrow> fs \<Rightarrow> string \<Rightarrow> string \<Rightarrow> (error + nat) \<times> fs" where
  "process_student_data L s0 input_file output_dir =
     (let s = makedirs output_dir s0
      in case load_table s input_file of
           Inl e \<Rightarrow> (Inl e, s)
         | Inr df0 \<Rightarrow>
             (let df = normalize_columns df0;
                  col_transcript = transcript_column df
              in case resolve_columns df of
                   Inl e \<Rightarrow> (Inl e, s)
                 | Inr cs \<Rightarrow>
                     (let df1 = filter_completed L df col_transcript;
                          df2 = normalize_dates L df1 (col_date cs);
                          grouped = groupby df2 (col_learner cs) (col_date cs);
                          res = write_groups L cs output_dir grouped (s, 0)
                      in (Inr (snd res), fst res))))"

subsection \<open>Notions used in the statements\<close>

text \<open>The frame the groups are taken from (lines 70 to 74), and the groups (line 76).\<close>

definition prepared :: "lib \<Rightarrow> table \<Rightarrow> cols \<Rightarrow> table" where
  "prepared L df cs =
     normalize_dates L (filter_completed L df (transcript_column df)) (col_date cs)"

definition grouped :: "lib \<Rightarrow> table \<Rightarrow> cols \<Rightarrow> ((cell \<times> cell) \<times> table) list" where
  "grouped L df cs = groupby (prepared L df cs) (col_learner cs) (col_date cs)"

text \<open>A group qualifies when the loop does not skip it (line 80).\<close>

definition qualifies :: "(cell \<times> cell) \<times> table \<Rightarrow> bool" where
  "qualifies g = (50 < length (rows (snd g)))"

text \<open>The path and the content of the file the loop writes for a group (lines 83 to 97).\<close>

definition written_file ::
  "lib \<Rightarrow> cols \<Rightarrow> string \<Rightarrow> (cell \<times> cell) \<times> table \<Rightarrow> string \<times> table" where
  "written_file L cs output_dir g =
     (path_join output_dir (report_filename L (fst (fst g)) (snd (fst g))),
      build_report L cs (snd g))"

text \<open>The files written between two states of the file system, newest first.\<close>

definition new_files :: "fs \<Rightarrow> fs \<Rightarrow> (string \<times> table) list" where
  "new_files s s' = take (length (files s') - length (files s)) (files s')"

text \<open>The labels of a report, in the order of line 84.\<close>

definition six :: "cols \<Rightarrow> string list" where
  "six cs = [col_name cs, col_title cs, col_learner cs, col_activity_id cs, col_duration cs,
             col_date cs]"

text \<open>The rows of the loaded frame that pass the status filter.\<close>

definition completed_rows :: "lib \<Rightarrow> table \<Rightarrow> cell list list" where
  "completed_rows L df =
     (case transcript_column df of
        None \<Rightarrow> rows df
      | Some c \<Rightarrow> filter (\<lambda>r. status_value L df c r = ''completed'') (rows df))"

text \<open>The date column handed to \<open>to_datetime\<close>: the dates of the rows that passed.\<close>

definition date_series :: "lib \<Rightarrow> table \<Rightarrow> cols \<Rightarrow> cell list" where
  "date_series L df cs = map (\<lambda>r. get_cell df r (col_date cs)) (completed_rows L df)"

text \<open>A loaded row as the prepared frame holds it: status and date overwritten.\<close>

definition mark_row :: "table \<Rightarrow> cell list \<Rightarrow> cell list" where
  "mark_row df r =
     (case transcript_column df of
        None \<Rightarrow> r
      | Some c \<Rightarrow> set_cell (index_of c (columns df)) (Str ''completed'') r)"

definition prep_row :: "lib \<Rightarrow> table \<Rightarrow> cols \<Rightarrow> cell list \<Rightarrow> cell list" where
  "prep_row L df cs r =
     set_cell (index_of (col_date cs) (columns df))
       (Str (date_string L (date_series L df cs) (get_cell df r (col_date cs))))
       (mark_row df r)"

text \<open>The group key of a loaded row, and the loaded rows of a key.\<close>

definition out_key :: "lib \<Rightarrow> table \<Rightarrow> cols \<Rightarrow> cell list \<Rightarrow> cell \<times> cell" where
  "out_key L df cs r =
     (get_cell df r (col_learner cs),
      Str (date_string L (date_series L df cs) (get_cell df r (col_date cs))))"

definition source_rows :: "lib \<Rightarrow> table \<Rightarrow> cols \<Rightarrow> cell \<times> cell \<Rightarrow> cell list list" where
  "source_rows L df cs k = filter (\<lambda>r. out_key L df cs r = k) (completed_rows L df)"

text \<open>The report row of a loaded row, and the summary row.\<close>

definition duration_value :: "lib \<Rightarrow> table \<Rightarrow> cols \<Rightarrow> cell list \<Rightarrow> real" where
  "duration_value L df cs r = fillna0 (to_numeric L (get_cell df r (col_duration cs)))"

definition output_row :: "lib \<Rightarrow> cols \<Rightarrow> table \<Rightarrow> cell list \<Rightarrow> cell list" where
  "output_row L cs df r =
     [get_cell df r (col_name cs), get_cell df r (col_title cs), get_cell df r (col_learner cs),
      get_cell df r (col_activity_id cs), Num (duration_value L df cs r),
      Str (date_string L (date_series L df cs) (get_cell df r (col_date cs)))]"

definition total_row :: "real \<Rightarrow> cell list" where
  "total_row x = [Missing, Str ''TOTAL'', Missing, Missing, Num x, Missing]"

text \<open>The keys of the groups, the report of a key and the file of a key, from the loaded rows.\<close>

definition group_keys :: "lib \<Rightarrow> table \<Rightarrow> cols \<Rightarrow> (cell \<times> cell) list" where
  "group_keys L df cs =
     sort_key key_rank (remdups (filter has_key (map (out_key L df cs) (completed_rows L df))))"

definition duration_total :: "lib \<Rightarrow> table \<Rightarrow> cols \<Rightarrow> cell list list \<Rightarrow> real" where
  "duration_total L df cs rs =
     series_sum (coerced_int64 L (map (\<lambda>r. get_cell df r (col_duration cs)) rs))
       (map (duration_value L df cs) rs)"

definition report_of_key :: "lib \<Rightarrow> cols \<Rightarrow> table \<Rightarrow> cell \<times> cell \<Rightarrow> table" where
  "report_of_key L cs df k =
     \<lparr>columns = six cs,
      rows = map (output_row L cs df) (source_rows L df cs k)
             @ [total_row (duration_total L df cs (source_rows L df cs k))]\<rparr>"

definition file_of_key ::
  "lib \<Rightarrow> cols \<Rightarrow> table \<Rightarrow> string \<Rightarrow> cell \<times> cell \<Rightarrow> string \<times> table" where
  "file_of_key L cs df output_dir k =
     (path_join output_dir (report_filename L (fst k) (snd k)), report_of_key L cs df k)"

subsection \<open>Column resolution as the specification words it\<close>

text \<open>
  Step (a): the candidates in order, each against the headers, ignoring case. Step (b): the
  first header, in table order, that equals some candidate once case and whitespace are
  ignored. Otherwise the error with the candidates and the headers.
\<close>

primrec exact_spec :: "string list \<Rightarrow> string list \<Rightarrow> string option" where
  "exact_spec cs [] = None"
| "exact_spec cs (cand # cands) =
     (case find (\<lambda>c. lower c = lower cand) cs of
        Some c \<Rightarrow> Some c
      | None \<Rightarrow> exact_spec cs cands)"

definition find_col_spec :: "table \<Rightarrow> string list \<Rightarrow> error + string" where
  "find_col_spec df candidates =
     (case exact_spec (columns df) candidates of
        Some c \<Rightarrow> Inr c
      | None \<Rightarrow>
          (case find (\<lambda>c. list_ex (\<lambda>cand. remove_ws (lower c) = remove_ws (lower cand)) candidates)
                  (columns df) of
             Some c \<Rightarrow> Inr c
           | None \<Rightarrow> Inl (ColumnNotFound candidates (columns df))))"

text \<open>The last header that equals \<open>c\<close> when case is ignored.\<close>

definition last_same_case :: "string list \<Rightarrow> string \<Rightarrow> string" where
  "last_same_case cs c = last (filter (\<lambda>c'. lower c' = lower c) cs)"

subsection \<open>A sample library and sample data\<close>

text \<open>
  An instance of the library conversions for the examples: dates in the form
  \<^verbatim>\<open>YYYY-MM-DD\<close>, numbers written as unsigned decimal integers, integers printed in
  decimal. \<open>sample_lib\<close> holds every number as a float, \<open>int64_lib\<close> as an integer.
\<close>

definition digit_value :: "char \<Rightarrow> nat option" where
  "digit_value c = map_of (zip ''0123456789'' [0, 1, 2, 3, 4, 5, 6, 7, 8, 9]) c"

primrec digits_value :: "nat \<Rightarrow> string \<Rightarrow> nat option" where
  "digits_value acc [] = Some acc"
| "digits_value acc (c # cs) =
     (case digit_value c of None \<Rightarrow> None | Some d \<Rightarrow> digits_value (10 * acc + d) cs)"

definition parse_iso_date :: "string \<Rightarrow> date option" where
  "parse_iso_date s =
     (if length s = 10 \<and> s ! 4 = CHR ''-'' \<and> s ! 7 = CHR ''-'' then
        (case (digits_value 0 (take 4 s), digits_value 0 (take 2 (drop 5 s)),
               digits_value 0 (drop 8 s)) of
           (Some y, Some m, Some d) \<Rightarrow>
             if 1 \<le> m \<and> m \<le> 12 \<and> 1 \<le> d \<and> d \<le> 31
             then Some \<lparr>year = y, month = m, day = d\<rparr> else None
         | _ \<Rightarrow> None)
      else None)"

definition parse_decimal :: "string \<Rightarrow> real option" where
  "parse_decimal s = (if s = [] then None else map_option real (digits_value 0 s))"

fun show_nat :: "nat \<Rightarrow> string" where
  "show_nat n = (if n < 10 then [digit n] else show_nat (n div 10) @ [digit n])"

declare show_nat.simps [simp del]

definition sample_lib :: lib where
  "sample_lib =
     \<lparr>to_datetime = (\<lambda>series c. case c of Str s \<Rightarrow> parse_iso_date s | _ \<Rightarrow> None),
      parse_number = parse_decimal,
      str_number =
        (\<lambda>x. if x < 0 then ''-'' @ show_nat (nat \<lfloor>- x\<rfloor>) else show_nat (nat \<lfloor>x\<rfloor>)),
      int64_dtype = (\<lambda>series. False)\<rparr>"


text \<open>A table with one activity per listed learner, all on one day, two hours each.\<close>

definition activity_columns :: "string list" where
  "activity_columns =
     [''Learner - Name'', ''Learner - ID'', ''Completion Date'', ''Learning activity - Duration'',
      ''Learning activity - Title'', ''Learning activity - ID'', ''Transcript status'']"

definition activity_row :: "string \<Rightarrow> cell list" where
  "activity_row learner =
     [Str ''Ann'', Str learner, Str ''2024-01-05'', Num 2, Str ''Intro'', Str ''A1'',
      Str ''Completed'']"

definition activity_table :: "string list \<Rightarrow> table" where
  "activity_table learners = \<lparr>columns = activity_columns, rows = map activity_row learners\<rparr>"




definition activity_cols :: cols where
  "activity_cols =
     \<lparr>col_name = ''Learner - Name'', col_learner = ''Learner - ID'',
      col_date = ''Completion Date'', col_duration = ''Learning activity - Duration'',
      col_title = ''Learning activity - Title'', col_activity_id = ''Learning activity - ID''\<rparr>"

text \<open>A file system that holds the table as \<^verbatim>\<open>in.csv\<close> and nothing else.\<close>

definition disk :: "table \<Rightarrow> fs" where
  "disk t = \<lparr>dirs = {}, files = [(''in.csv'', t)]\<rparr>"

text \<open>A file system where the output directory exists and holds an older file.\<close>

definition stale_disk :: "table \<Rightarrow> fs" where
  "stale_disk t =
     \<lparr>dirs = {''out''}, files = [(''out/old.xlsx'', activity_table []), (''in.csv'', t)]\<rparr>"

text \<open>The report expected for \<open>n\<close> activities of one learner of the sample table.\<close>

definition activity_report :: "string \<Rightarrow> nat \<Rightarrow> table" where
  "activity_report learner n =
     \<lparr>columns = [''Learner - Name'', ''Learning activity - Title'', ''Learner - ID'',
                 ''Learning activity - ID'', ''Learning activity - Duration'', ''Completion Date''],
      rows = replicate n
               [Str ''Ann'', Str ''Intro'', Str learner, Str ''A1'', Num 2, Str ''2024-01-05'']
             @ [[Missing, Str ''TOTAL'', Missing, Missing, Num (2 * real n), Missing]]\<rparr>"

text \<open>The sample table without a status column.\<close>

definition plain_table :: "string list \<Rightarrow> table" where
  "plain_table learners =
     \<lparr>columns = [''Learner - Name'', ''Learner - ID'', ''Completion Date'',
                 ''Learning activity - Duration'', ''Learning activity - Title'',
                 ''Learning activity - ID''],
      rows = map (\<lambda>l. [Str ''Ann'', Str l, Str ''2024-01-05'', Num 2, Str ''Intro'', Str ''A1''])
               learners\<rparr>"

section \<open>Properties\<close>

subsection \<open>Runs of \<^verbatim>\<open>process_student_data\<close>\<close>

lemma load_table_makedirs: "load_table (makedirs d s) p = load_table s p"
  by (simp add: load_table_def makedirs_def read_excel_def read_csv_def read_table_def Let_def)

lemma dirs_makedirs: "dirs (makedirs d s) = insert d (dirs s)"
  by (simp add: makedirs_def)

lemma files_makedirs: "files (makedirs d s) = files s"
  by (simp add: makedirs_def)

lemma write_groups_run:
  "write_groups L cs out gs (s, n) =
     (s\<lparr>files := rev (map (written_file L cs out) (filter qualifies gs)) @ files s\<rparr>,
      n + length (filter qualifies gs))"
proof (induction gs arbitrary: s n)
  case Nil
  show ?case by simp
next
  case (Cons g gs)
  obtain k t where g: "g = (k, t)" by (cases g)
  show ?case
    by (simp add: g Cons.IH qualifies_def written_file_def to_excel_def not_le)
qed

lemma process_student_data_run:
  assumes "load_table s input_file = Inr t"
    and "resolve_columns (normalize_columns t) = Inr cs"
  shows "process_student_data L s input_file output_dir =
     (Inr (length (filter qualifies (grouped L (normalize_columns t) cs))),
      (makedirs output_dir s)\<lparr>files :=
         rev (map (written_file L cs output_dir)
                (filter qualifies (grouped L (normalize_columns t) cs))) @ files s\<rparr>)"
  using assms
  by (simp add: process_student_data_def load_table_makedirs Let_def write_groups_run
      grouped_def prepared_def files_makedirs)

lemma process_student_data_load_error:
  assumes "load_table s input_file = Inl e"
  shows "process_student_data L s input_file output_dir = (Inl e, makedirs output_dir s)"
  using assms by (simp add: process_student_data_def load_table_makedirs)

lemma process_student_data_dirs:
  "dirs (snd (process_student_data L s input_file output_dir)) = insert output_dir (dirs s)"
  by (simp add: process_student_data_def load_table_makedirs Let_def write_groups_run
      dirs_makedirs split: sum.splits)

lemma index_of_less: "x \<in> set xs \<Longrightarrow> index_of x xs < length xs"
  by (induction xs) auto

lemma index_of_nth: "x \<in> set xs \<Longrightarrow> xs ! index_of x xs = x"
  by (induction xs) auto

lemma index_of_absent: "x \<notin> set xs \<Longrightarrow> index_of x xs = length xs"
  by (induction xs) auto

lemma index_of_eq: "x \<in> set xs \<Longrightarrow> index_of x xs = index_of y xs \<Longrightarrow> x = y"
  by (metis index_of_absent index_of_less index_of_nth nat_neq_iff)

lemma cell_at_set_cell: "cell_at (set_cell i v r) j = (if j = i then v else cell_at r j)"
  by (auto simp: cell_at_def set_cell_def nth_list_update nth_append)

lemma columns_assign: "columns (assign df c f) = columns df"
  by (simp add: assign_def)

lemma rows_assign:
  "rows (assign df c f) = map (\<lambda>r. set_cell (index_of c (columns df)) (f r) r) (rows df)"
  by (simp add: assign_def)

lemma get_cell_columns: "columns a = columns b \<Longrightarrow> get_cell a r c = get_cell b r c"
  by (simp add: get_cell_def)

lemma get_cell_set_cell_same:
  "get_cell df (set_cell (index_of c (columns df)) v r) c = v"
  by (simp add: get_cell_def cell_at_set_cell)

lemma get_cell_set_cell_other:
  "c \<in> set (columns df) \<Longrightarrow> c' \<noteq> c \<Longrightarrow>
   get_cell df (set_cell (index_of c (columns df)) v r) c' = get_cell df r c'"
  using index_of_eq [of c "columns df" c'] by (auto simp: get_cell_def cell_at_set_cell)

subsection \<open>lc_map\<close>

lemma lc_map_snoc: "lc_map (cs @ [c]) = AList.update (lower c) c (lc_map cs)"
  by (simp add: lc_map_def)

lemma lc_map_Nil: "lc_map [] = []"
  by (simp add: lc_map_def)

lemma map_of_lc_map:
  "map_of (lc_map cs) k =
     (if k \<in> lower ` set cs then Some (last (filter (\<lambda>c. lower c = k) cs)) else None)"
proof (induction cs rule: rev_induct)
  case Nil
  show ?case by (simp add: lc_map_Nil)
next
  case (snoc c cs)
  show ?case
    by (auto simp: lc_map_snoc update_conv' snoc.IH)
qed

lemma keys_lc_map_snoc:
  "map fst (lc_map (cs @ [c])) =
     map fst (lc_map cs) @ (if lower c \<in> lower ` set cs then [] else [lower c])"
proof -
  have "set (map fst (lc_map cs)) = lower ` set cs"
  proof (induction cs rule: rev_induct)
    case Nil
    show ?case by (simp add: lc_map_Nil)
  next
    case (snoc c cs)
    then show ?case by (auto simp: lc_map_snoc update_keys)
  qed
  then show ?thesis by (simp add: lc_map_snoc update_keys)
qed

lemma first_fuzzy_find:
  "first_fuzzy m cands =
     (case find (\<lambda>k. cand_matches k cands) (map fst m) of None \<Rightarrow> None | Some k \<Rightarrow> map_of m k)"
proof (induction m)
  case Nil
  show ?case by simp
next
  case (Cons kv m)
  have "k \<noteq> fst kv" if "find (\<lambda>k. cand_matches k cands) (map fst m) = Some k"
    and "\<not> cand_matches (fst kv) cands" for k
    using that by (auto simp: find_Some_iff)
  then show ?case
    by (cases kv) (auto simp: Cons.IH split: option.splits)
qed

lemma find_append_list:
  "find P (xs @ ys) = (case find P xs of None \<Rightarrow> find P ys | Some x \<Rightarrow> Some x)"
  by (induction xs) auto

lemma find_keys_lc_map:
  "find P (map fst (lc_map cs)) = map_option lower (find (\<lambda>c. P (lower c)) cs)"
proof (induction cs rule: rev_induct)
  case Nil
  show ?case by (simp add: lc_map_Nil)
next
  case (snoc c cs)
  show ?case
  proof (cases "find (\<lambda>c. P (lower c)) cs")
    case None
    then have "\<not> P (lower c)" if "lower c \<in> lower ` set cs"
      using that by (auto simp: find_None_iff)
    with None show ?thesis
      by (auto simp: keys_lc_map_snoc find_append_list snoc.IH)
  next
    case (Some a)
    then show ?thesis
      by (simp add: keys_lc_map_snoc find_append_list snoc.IH)
  qed
qed

lemma cand_matches_iff:
  "cand_matches key cands = list_ex (\<lambda>cand. remove_ws key = remove_ws (lower cand)) cands"
  by (induction cands) auto

lemma first_exact_lc_map:
  "first_exact (lc_map cs) cands = map_option (last_same_case cs) (exact_spec cs cands)"
proof (induction cands)
  case Nil
  show ?case by simp
next
  case (Cons cand cands)
  show ?case
  proof (cases "find (\<lambda>c. lower c = lower cand) cs")
    case None
    then have "lower cand \<notin> lower ` set cs"
      by (auto simp: find_None_iff)
    with None show ?thesis
      by (simp add: map_of_lc_map Cons.IH)
  next
    case (Some c)
    then have "c \<in> set cs" "lower c = lower cand"
      by (auto simp: find_Some_iff)
    then have "lower cand \<in> lower ` set cs"
      by (metis imageI)
    with Some \<open>lower c = lower cand\<close> show ?thesis
      by (simp add: map_of_lc_map last_same_case_def)
  qed
qed

lemma first_fuzzy_lc_map:
  "first_fuzzy (lc_map cs) cands =
     map_option (last_same_case cs) (find (\<lambda>c. cand_matches (lower c) cands) cs)"
proof (cases "find (\<lambda>c. cand_matches (lower c) cands) cs")
  case None
  then show ?thesis
    by (simp add: first_fuzzy_find find_keys_lc_map)
next
  case (Some c)
  then have "c \<in> set cs"
    by (auto simp: find_Some_iff)
  then have "lower c \<in> lower ` set cs"
    by simp
  with Some show ?thesis
    by (simp add: first_fuzzy_find find_keys_lc_map map_of_lc_map last_same_case_def)
qed

lemma find_col_char:
  "find_col df cands =
     (case find_col_spec df cands of
        Inl e \<Rightarrow> Inl e
      | Inr c \<Rightarrow> Inr (last_same_case (columns df) c))"
  by (simp add: find_col_def find_col_spec_def first_exact_lc_map first_fuzzy_lc_map
      cand_matches_iff split: option.splits)

lemma exact_spec_sound:
  "exact_spec cs cands = Some c \<Longrightarrow> c \<in> set cs \<and> (\<exists>cand\<in>set cands. lower c = lower cand)"
  by (induction cands) (auto simp: find_Some_iff split: option.splits)

lemma last_same_case_sound:
  "c \<in> set cs \<Longrightarrow> last_same_case cs c \<in> set cs \<and> lower (last_same_case cs c) = lower c"
proof -
  assume "c \<in> set cs"
  then have ne: "filter (\<lambda>c'. lower c' = lower c) cs \<noteq> []"
    by (auto simp: filter_empty_conv)
  from last_in_set [OF ne] show ?thesis
    by (simp add: last_same_case_def)
qed

lemma find_col_spec_sound:
  assumes "find_col_spec df cands = Inr c"
  shows "c \<in> set (columns df) \<and>
         (\<exists>cand\<in>set cands. remove_ws (lower c) = remove_ws (lower cand))"
proof (cases "exact_spec (columns df) cands")
  case (Some c')
  with assms have "c' = c"
    by (simp add: find_col_spec_def)
  with exact_spec_sound [OF Some] show ?thesis
    by auto
next
  case None
  with assms have "find (\<lambda>c. list_ex (\<lambda>cand. remove_ws (lower c) = remove_ws (lower cand)) cands)
      (columns df) = Some c"
    by (simp add: find_col_spec_def split: option.splits)
  then show ?thesis
    by (auto simp: find_Some_iff list_ex_iff)
qed

lemma find_col_sound:
  assumes "find_col df cands = Inr x"
  shows "x \<in> set (columns df) \<and> (\<exists>cand\<in>set cands. remove_ws (lower x) = remove_ws (lower cand))"
proof -
  from assms obtain c where c: "find_col_spec df cands = Inr c"
    and x: "x = last_same_case (columns df) c"
    by (auto simp: find_col_char split: sum.splits)
  from find_col_spec_sound [OF c] last_same_case_sound [of c "columns df"] x
  show ?thesis by auto
qed

lemma key_strings:
  "remove_ws (lower ''Learner - Name'') = ''learner-name''"
  "remove_ws (lower ''Learner - ID'') = ''learner-id''"
  "remove_ws (lower ''Completion Date'') = ''completiondate''"
  "remove_ws (lower ''Learning activity - Duration'') = ''learningactivity-duration''"
  "remove_ws (lower ''Learning activity - Title'') = ''learningactivity-title''"
  "remove_ws (lower ''Learning activity - ID'') = ''learningactivity-id''"
  "remove_ws (lower ''Transcript status'') = ''transcriptstatus''"
  by (simp_all add: remove_ws_def lower_def lower_char_def isspace_def)

lemma resolve_columns_sound:
  assumes "resolve_columns df = Inr cs"
  shows "set (six cs) \<subseteq> set (columns df)"
    and "remove_ws (lower (col_name cs)) = ''learner-name''"
    and "remove_ws (lower (col_learner cs)) = ''learner-id''"
    and "remove_ws (lower (col_date cs)) = ''completiondate''"
    and "remove_ws (lower (col_duration cs)) = ''learningactivity-duration''"
    and "remove_ws (lower (col_title cs)) = ''learningactivity-title''"
    and "remove_ws (lower (col_activity_id cs)) = ''learningactivity-id''"
proof -
  from assms obtain cn cl cd cu ct ca where
    r: "find_col df [''Learner - Name''] = Inr cn"
       "find_col df [''Learner - ID''] = Inr cl"
       "find_col df [''Completion Date''] = Inr cd"
       "find_col df [''Learning activity - Duration''] = Inr cu"
       "find_col df [''Learning activity - Title''] = Inr ct"
       "find_col df [''Learning activity - ID''] = Inr ca"
    and cs: "cs = \<lparr>col_name = cn, col_learner = cl, col_date = cd, col_duration = cu,
             col_title = ct, col_activity_id = ca\<rparr>"
    by (auto simp: resolve_columns_def split: sum.splits)
  note s = r [THEN find_col_sound]
  show "set (six cs) \<subseteq> set (columns df)"
    using s by (simp add: cs six_def)
  show "remove_ws (lower (col_name cs)) = ''learner-name''"
    using s(1) by (simp add: cs key_strings)
  show "remove_ws (lower (col_learner cs)) = ''learner-id''"
    using s(2) by (simp add: cs key_strings)
  show "remove_ws (lower (col_date cs)) = ''completiondate''"
    using s(3) by (simp add: cs key_strings)
  show "remove_ws (lower (col_duration cs)) = ''learningactivity-duration''"
    using s(4) by (simp add: cs key_strings)
  show "remove_ws (lower (col_title cs)) = ''learningactivity-title''"
    using s(5) by (simp add: cs key_strings)
  show "remove_ws (lower (col_activity_id cs)) = ''learningactivity-id''"
    using s(6) by (simp add: cs key_strings)
qed

lemma resolve_columns_distinct:
  assumes "resolve_columns df = Inr cs"
  shows "distinct (six cs)"
proof -
  note k = resolve_columns_sound(2-7) [OF assms]
  have "a \<noteq> b" if "remove_ws (lower a) \<noteq> remove_ws (lower b)" for a b
    using that by auto
  then show ?thesis
    unfolding six_def distinct.simps list.set by (simp add: k)
qed

lemma transcript_column_sound:
  assumes "transcript_column df = Some c"
  shows "c \<in> set (columns df)" and "remove_ws (lower c) = ''transcriptstatus''"
proof -
  from assms have "find_col df [''Transcript status''] = Inr c"
    by (simp add: transcript_column_def split: sum.splits)
  from find_col_sound [OF this] show "c \<in> set (columns df)"
    and "remove_ws (lower c) = ''transcriptstatus''"
    by (simp_all add: key_strings)
qed

lemma transcript_column_not_required:
  assumes "transcript_column df = Some c" and "resolve_columns df = Inr cs"
  shows "c \<notin> set (six cs)" and "c \<noteq> []"
proof -
  note k = resolve_columns_sound(2-7) [OF assms(2)] transcript_column_sound(2) [OF assms(1)]
  have ne: "a \<noteq> b" if "remove_ws (lower a) \<noteq> remove_ws (lower b)" for a b
    using that by auto
  show "c \<notin> set (six cs)"
    unfolding six_def list.set using ne [of c] by (simp add: k)
  show "c \<noteq> []"
    using k(7) by (auto simp: remove_ws_def lower_def)
qed

lemma grouped_prepared:
  "grouped L df cs = groupby (prepared L df cs) (col_learner cs) (col_date cs)"
  by (simp add: grouped_def)

lemma columns_filter_completed: "columns (filter_completed L df ct) = columns df"
  by (simp add: filter_completed_def Let_def columns_assign split: option.splits)

lemma transcript_column_nonempty: "transcript_column df = Some c \<Longrightarrow> c \<noteq> []"
  using transcript_column_sound(2) [of df c] by (auto simp: remove_ws_def lower_def)

lemma rows_filter_completed:
  "rows (filter_completed L df (transcript_column df)) = map (mark_row df) (completed_rows L df)"
proof (cases "transcript_column df")
  case None
  then have "mark_row df = (\<lambda>r. r)"
    by (simp add: mark_row_def fun_eq_iff)
  with None show ?thesis
    by (simp add: filter_completed_def completed_rows_def)
next
  case (Some c)
  let ?i = "index_of c (columns df)"
  let ?df1 = "assign df c (\<lambda>r. Str (status_value L df c r))"
  have get: "get_cell ?df1 (set_cell ?i v r) c = v" for v r
    using get_cell_set_cell_same [of ?df1 c v r] by (simp add: columns_assign)
  have "rows (filter_completed L df (Some c)) =
      map (\<lambda>r. set_cell ?i (Str (status_value L df c r)) r)
        (filter (\<lambda>r. status_value L df c r = ''completed'') (rows df))"
    using transcript_column_nonempty [OF Some]
    by (simp add: filter_completed_def Let_def rows_assign filter_map o_def get)
  also have "\<dots> = map (\<lambda>r. set_cell ?i (Str ''completed'') r)
        (filter (\<lambda>r. status_value L df c r = ''completed'') (rows df))"
    by (rule map_cong) auto
  finally show ?thesis
    by (simp add: Some completed_rows_def mark_row_def)
qed

lemma get_cell_mark_row:
  assumes "resolve_columns df = Inr cs" and "c \<in> set (six cs)"
  shows "get_cell df (mark_row df r) c = get_cell df r c"
proof (cases "transcript_column df")
  case None
  then show ?thesis by (simp add: mark_row_def)
next
  case (Some ct)
  from transcript_column_not_required(1) [OF Some assms(1)] assms(2) have "c \<noteq> ct"
    by auto
  with transcript_column_sound(1) [OF Some] show ?thesis
    by (simp add: mark_row_def Some get_cell_set_cell_other)
qed

lemma columns_prepared: "columns (prepared L df cs) = columns df"
  by (simp add: prepared_def normalize_dates_def Let_def columns_assign columns_filter_completed)

lemma rows_prepared:
  assumes "resolve_columns df = Inr cs"
  shows "rows (prepared L df cs) = map (prep_row L df cs) (completed_rows L df)"
proof -
  let ?df1 = "filter_completed L df (transcript_column df)"
  have cd: "col_date cs \<in> set (six cs)"
    by (simp add: six_def)
  have g: "get_cell ?df1 r c = get_cell df r c" for r c
    by (rule get_cell_columns) (simp add: columns_filter_completed)
  show ?thesis
    by (simp add: prepared_def normalize_dates_def Let_def rows_assign date_series_def
        columns_filter_completed rows_filter_completed o_def g get_cell_mark_row [OF assms cd]
        prep_row_def)
qed

lemma get_cell_prep_row:
  assumes "resolve_columns df = Inr cs" and "c \<in> set (six cs)"
  shows "get_cell df (prep_row L df cs r) c =
     (if c = col_date cs
      then Str (date_string L (date_series L df cs) (get_cell df r (col_date cs)))
      else get_cell df r c)"
proof -
  have "col_date cs \<in> set (columns df)"
    using resolve_columns_sound(1) [OF assms(1)] by (simp add: six_def)
  then show ?thesis
    by (simp add: prep_row_def get_cell_set_cell_same get_cell_set_cell_other
        get_cell_mark_row [OF assms])
qed

subsection \<open>groupby\<close>

lemma groupby_mem:
  assumes "g \<in> set (groupby df a b)"
  shows "columns (snd g) = columns df"
    and "rows (snd g) = filter (\<lambda>r. row_key df a b r = fst g) (rows df)"
    and "has_key (fst g)"
    and "fst g \<in> row_key df a b ` set (rows df)"
  using assms by (auto simp: groupby_def Let_def)

lemma groupby_keys_distinct: "distinct (map fst (groupby df a b))"
  by (simp add: groupby_def Let_def o_def)

lemma groupby_no_rows: "rows df = [] \<Longrightarrow> groupby df a b = []"
  by (simp add: groupby_def)

lemma groupby_group_nonempty:
  assumes "g \<in> set (groupby df a b)"
  shows "rows (snd g) \<noteq> []"
  using groupby_mem(2,4) [OF assms] by (auto simp: filter_empty_conv)

lemma six_index:
  assumes "distinct (six cs)"
  shows "index_of (col_name cs) (six cs) = 0"
    and "index_of (col_title cs) (six cs) = 1"
    and "index_of (col_learner cs) (six cs) = 2"
    and "index_of (col_activity_id cs) (six cs) = 3"
    and "index_of (col_duration cs) (six cs) = 4"
    and "index_of (col_date cs) (six cs) = 5"
  using assms by (auto simp: six_def)

lemma set_cell_4: "set_cell 4 v [a, b, c, d, e, f] = [a, b, c, d, v, f]"
  by (simp add: set_cell_def eval_nat_numeral)

lemma cell_at_6:
  "cell_at [a, b, c, d, e, f] 0 = a"
  "cell_at [a, b, c, d, e, f] 1 = b"
  "cell_at [a, b, c, d, e, f] 2 = c"
  "cell_at [a, b, c, d, e, f] 3 = d"
  "cell_at [a, b, c, d, e, f] 4 = e"
  "cell_at [a, b, c, d, e, f] 5 = f"
  by (simp_all add: cell_at_def eval_nat_numeral)

lemma get_cell_six:
  assumes "distinct (six cs)" and "columns t = six cs"
  shows "get_cell t [a, b, c, d, e, f] (col_name cs) = a"
    and "get_cell t [a, b, c, d, e, f] (col_title cs) = b"
    and "get_cell t [a, b, c, d, e, f] (col_learner cs) = c"
    and "get_cell t [a, b, c, d, e, f] (col_activity_id cs) = d"
    and "get_cell t [a, b, c, d, e, f] (col_duration cs) = e"
    and "get_cell t [a, b, c, d, e, f] (col_date cs) = f"
  by (simp_all add: get_cell_def assms(2) six_index [OF assms(1)] cell_at_def eval_nat_numeral)

lemma build_report_explicit:
  assumes "distinct (six cs)"
  shows "build_report L cs g =
     \<lparr>columns = six cs,
      rows = map (\<lambda>r. [get_cell g r (col_name cs), get_cell g r (col_title cs),
                        get_cell g r (col_learner cs), get_cell g r (col_activity_id cs),
                        Num (fillna0 (to_numeric L (get_cell g r (col_duration cs)))),
                        get_cell g r (col_date cs)]) (rows g)
             @ [total_row
                  (series_sum (coerced_int64 L (map (\<lambda>r. get_cell g r (col_duration cs)) (rows g)))
                     (map (\<lambda>r. fillna0 (to_numeric L (get_cell g r (col_duration cs))))
                        (rows g)))]\<rparr>"
proof -
  define d0 where "d0 = select g (six cs)"
  define d1 where "d1 = assign d0 (col_duration cs)
     (\<lambda>r. Num (fillna0 (to_numeric L (get_cell d0 r (col_duration cs)))))"
  define orow where "orow = (\<lambda>r. [get_cell g r (col_name cs), get_cell g r (col_title cs),
                        get_cell g r (col_learner cs), get_cell g r (col_activity_id cs),
                        Num (fillna0 (to_numeric L (get_cell g r (col_duration cs)))),
                        get_cell g r (col_date cs)])"
  define int64 where "int64 = coerced_int64 L (map (\<lambda>r. get_cell g r (col_duration cs)) (rows g))"
  define total where "total = series_sum int64
      (map (\<lambda>r. fillna0 (to_numeric L (get_cell g r (col_duration cs)))) (rows g))"
  define summary where "summary = \<lparr>columns = [col_title cs, col_duration cs],
                     rows = [[Str ''TOTAL'', Num total]]\<rparr>"
  have c0: "columns d0 = six cs"
    by (simp add: d0_def select_def)
  have r0: "rows d0 = map (\<lambda>r. [get_cell g r (col_name cs), get_cell g r (col_title cs),
                        get_cell g r (col_learner cs), get_cell g r (col_activity_id cs),
                        get_cell g r (col_duration cs), get_cell g r (col_date cs)]) (rows g)"
    by (simp add: d0_def select_def six_def)
  have c1: "columns d1 = six cs"
    by (simp add: d1_def columns_assign c0)
  have r1: "rows d1 = map orow (rows g)"
    by (simp add: d1_def rows_assign c0 r0 o_def six_index [OF assms]
        get_cell_six [OF assms c0] set_cell_4 orow_def)
  have i0: "coerced_int64 L (map (\<lambda>r. get_cell d0 r (col_duration cs)) (rows d0)) = int64"
    by (simp add: r0 o_def get_cell_six [OF assms c0] int64_def)
  have sum: "column_sum int64 d1 (col_duration cs) = total"
    by (simp add: column_sum_def column_values_def r1 o_def orow_def get_cell_six [OF assms c1]
        total_def)
  have ne: "col_title cs \<noteq> col_duration cs"
    using assms by (auto simp: six_def)
  have re1: "reindex d1 (six cs) (orow r) = orow r" for r
    unfolding orow_def reindex_def c1
    by (simp add: six_def get_cell_six [OF assms c1])
  have re2: "reindex summary (six cs) [Str ''TOTAL'', Num total] = total_row total"
    using assms ne
    by (auto simp: reindex_def summary_def six_def get_cell_def cell_at_def total_row_def)
  have cs': "columns d1 @ filter (\<lambda>c. c \<notin> set (columns d1)) (columns summary) = six cs"
    by (simp add: c1 summary_def six_def)
  have "build_report L cs g = concat_frames d1 summary"
    by (simp add: build_report_def Let_def six_def [symmetric] d0_def [symmetric] i0
        d1_def [symmetric] sum summary_def)
  also have "\<dots> = \<lparr>columns = six cs, rows = map orow (rows g) @ [total_row total]\<rparr>"
    by (simp add: concat_frames_def Let_def cs' r1 o_def re1) (simp add: summary_def re2 [unfolded summary_def])
  finally show ?thesis
    by (simp add: orow_def total_def int64_def)
qed

lemma report_filename_alt:
  "report_filename L l d = ''learner_'' @ safe_learner L l @ ''_'' @ safe_date L d @ ''.xlsx''"
  by (simp add: report_filename_def)

lemma grouped_mem:
  assumes r: "resolve_columns df = Inr cs" and g: "g \<in> set (grouped L df cs)"
  shows "columns (snd g) = columns df"
    and "rows (snd g) = map (prep_row L df cs) (source_rows L df cs (fst g))"
    and "fst g \<in> out_key L df cs ` set (completed_rows L df)"
    and "has_key (fst g)"
proof -
  let ?p = "prepared L df cs"
  note m = groupby_mem [OF g [unfolded grouped_prepared]]
  have cl: "col_learner cs \<in> set (six cs)" and cd: "col_date cs \<in> set (six cs)"
    by (simp_all add: six_def)
  have gp: "get_cell ?p x c = get_cell df x c" for x c
    by (rule get_cell_columns) (simp add: columns_prepared)
  have key: "row_key ?p (col_learner cs) (col_date cs) (prep_row L df cs x) = out_key L df cs x" for x
    using resolve_columns_distinct [OF r]
    by (auto simp: row_key_def gp get_cell_prep_row [OF r cl] get_cell_prep_row [OF r cd]
        out_key_def six_def)
  show "columns (snd g) = columns df"
    using m(1) by (simp add: columns_prepared)
  show "rows (snd g) = map (prep_row L df cs) (source_rows L df cs (fst g))"
    using m(2) by (simp add: rows_prepared [OF r] filter_map o_def key source_rows_def)
  show "fst g \<in> out_key L df cs ` set (completed_rows L df)"
    using m(4) by (auto simp: rows_prepared [OF r] key)
  show "has_key (fst g)"
    by (rule m(3))
qed

lemma grouped_keys_distinct: "distinct (map fst (grouped L df cs))"
  by (simp add: grouped_prepared groupby_keys_distinct)

lemma report_of_group:
  assumes r: "resolve_columns df = Inr cs" and g: "g \<in> set (grouped L df cs)"
  shows "build_report L cs (snd g) =
     \<lparr>columns = six cs,
      rows = map (output_row L cs df) (source_rows L df cs (fst g))
             @ [total_row (duration_total L df cs (source_rows L df cs (fst g)))]\<rparr>"
proof -
  note m = grouped_mem [OF r g]
  have gg: "get_cell (snd g) x c = get_cell df x c" for x c
    by (rule get_cell_columns) (rule m(1))
  have mem: "col_name cs \<in> set (six cs)" "col_title cs \<in> set (six cs)"
    "col_learner cs \<in> set (six cs)" "col_activity_id cs \<in> set (six cs)"
    "col_duration cs \<in> set (six cs)" "col_date cs \<in> set (six cs)"
    by (simp_all add: six_def)
  have d: "distinct (six cs)"
    by (rule resolve_columns_distinct [OF r])
  then have ne: "col_name cs \<noteq> col_date cs" "col_title cs \<noteq> col_date cs"
    "col_learner cs \<noteq> col_date cs" "col_activity_id cs \<noteq> col_date cs"
    "col_duration cs \<noteq> col_date cs"
    by (auto simp: six_def)
  have dv: "duration_value L df cs = (\<lambda>x. fillna0 (to_numeric L (get_cell df x (col_duration cs))))"
    by (simp add: fun_eq_iff duration_value_def)
  show ?thesis
    by (simp add: build_report_explicit [OF d] m(2) o_def gg mem [THEN get_cell_prep_row [OF r]] ne
        output_row_def dv duration_total_def)
qed

lemma length_group:
  assumes r: "resolve_columns df = Inr cs" and g: "g \<in> set (grouped L df cs)"
  shows "length (rows (snd g)) = length (source_rows L df cs (fst g))"
  by (simp add: grouped_mem(2) [OF r g])

lemma grouped_no_rows: "rows df = [] \<Longrightarrow> grouped L df cs = []"
proof -
  assume "rows df = []"
  then have "completed_rows L df = []"
    by (simp add: completed_rows_def split: option.splits)
  then have "rows (prepared L df cs) = []"
    by (simp add: prepared_def normalize_dates_def Let_def rows_assign rows_filter_completed)
  then show ?thesis
    by (simp add: grouped_prepared groupby_no_rows)
qed

subsection \<open>File names\<close>

lemma split_first_sep:
  "c \<notin> set xs \<Longrightarrow> c \<notin> set xs' \<Longrightarrow> xs @ c # ys = xs' @ c # ys' \<Longrightarrow> xs = xs' \<and> ys = ys'"
proof (induction xs arbitrary: xs')
  case Nil
  then show ?case by (cases xs') auto
next
  case (Cons x xs)
  then show ?case by (cases xs') auto
qed

lemma split_last_sep:
  assumes "xs @ c # ys = xs' @ c # ys'" and "c \<notin> set ys" and "c \<notin> set ys'"
  shows "xs = xs' \<and> ys = ys'"
proof -
  from assms(1) have "rev (xs @ c # ys) = rev (xs' @ c # ys')"
    by simp
  then have "rev ys @ c # rev xs = rev ys' @ c # rev xs'"
    by simp
  moreover have "c \<notin> set (rev ys)" "c \<notin> set (rev ys')"
    using assms(2,3) by simp_all
  ultimately have "rev ys = rev ys' \<and> rev xs = rev xs'"
    by (rule split_first_sep [rotated 2])
  then show ?thesis
    by simp
qed

lemma digit_in: "digit n \<in> set ''0123456789''"
  unfolding digit_def by (rule nth_mem) simp

lemma date_string_chars: "set (date_string L s c) \<subseteq> set ''0123456789-NaT''"
proof -
  define D where "D = set ''0123456789-NaT''"
  have a: "digit n \<in> D" for n
    using digit_in [of n] unfolding D_def by auto
  have b: "CHR ''-'' \<in> D" "CHR ''N'' \<in> D" "CHR ''a'' \<in> D" "CHR ''T'' \<in> D"
    unfolding D_def by simp_all
  show ?thesis
    unfolding D_def [symmetric]
    by (simp add: date_string_def date_str_def a b split: option.splits)
qed

lemma date_string_safe:
  "CHR '' '' \<notin> set (date_string L s c)" "CHR '':'' \<notin> set (date_string L s c)"
  "CHR ''_'' \<notin> set (date_string L s c)"
  using date_string_chars [of L s c] by auto

lemma replace_char_absent: "a \<notin> set s \<Longrightarrow> replace_char a b s = s"
  by (induction s) (auto simp: replace_char_def)

lemma safe_date_date_string: "safe_date L (Str (date_string L s c)) = date_string L s c"
proof -
  show ?thesis
    by (simp add: safe_date_def astype_str_def replace_char_absent date_string_safe)
qed

lemma path_join_learner:
  "path_join d (CHR ''l'' # f) = path_join d [] @ CHR ''l'' # f"
  by (simp add: path_join_def)

lemma report_path_inject:
  assumes "path_join out (report_filename L l (Str (date_string L s c))) =
           path_join out (report_filename L l' (Str (date_string L s' c')))"
  shows "safe_learner L l = safe_learner L l' \<and> date_string L s c = date_string L s' c'"
proof -
  let ?d = "date_string L s c" and ?d' = "date_string L s' c'"
  have u: "CHR ''_'' \<notin> set (?d @ ''.xlsx'')" "CHR ''_'' \<notin> set (?d' @ ''.xlsx'')"
    by (simp_all add: date_string_safe)
  have f: "report_filename L x (Str (date_string L y z)) =
      CHR ''l'' # (''earner_'' @ safe_learner L x) @ CHR ''_'' # (date_string L y z @ ''.xlsx'')"
    for x y z
    by (simp add: report_filename_alt safe_date_date_string)
  from assms have "(''earner_'' @ safe_learner L l) @ CHR ''_'' # (?d @ ''.xlsx'') =
      (''earner_'' @ safe_learner L l') @ CHR ''_'' # (?d' @ ''.xlsx'')"
    unfolding f path_join_learner by simp
  from split_last_sep [OF this u] show ?thesis
    by simp
qed

subsection \<open>Runs in terms of the loaded rows\<close>

lemma prepared_row_key:
  assumes r: "resolve_columns df = Inr cs"
  shows "row_key (prepared L df cs) (col_learner cs) (col_date cs) (prep_row L df cs x) =
         out_key L df cs x"
proof -
  have cl: "col_learner cs \<in> set (six cs)" and cd: "col_date cs \<in> set (six cs)"
    by (simp_all add: six_def)
  have gp: "get_cell (prepared L df cs) y c = get_cell df y c" for y c
    by (rule get_cell_columns) (simp add: columns_prepared)
  show ?thesis
    using resolve_columns_distinct [OF r]
    by (auto simp: row_key_def gp get_cell_prep_row [OF r cl] get_cell_prep_row [OF r cd]
        out_key_def six_def)
qed

lemma grouped_keys:
  assumes r: "resolve_columns df = Inr cs"
  shows "map fst (grouped L df cs) = group_keys L df cs"
  by (simp add: grouped_def groupby_def Let_def o_def rows_prepared [OF r]
      prepared_row_key [OF r] group_keys_def)

lemma written_file_of_key:
  assumes r: "resolve_columns df = Inr cs" and g: "g \<in> set (grouped L df cs)"
  shows "written_file L cs out g = file_of_key L cs df out (fst g)"
  by (simp add: written_file_def file_of_key_def report_of_key_def report_of_group [OF r g])

lemma qualifies_of_key:
  assumes r: "resolve_columns df = Inr cs" and g: "g \<in> set (grouped L df cs)"
  shows "qualifies g = (50 < length (source_rows L df cs (fst g)))"
  by (simp add: qualifies_def length_group [OF r g])

lemma written_files_of_keys:
  assumes r: "resolve_columns df = Inr cs"
  shows "map (written_file L cs out) (filter qualifies (grouped L df cs)) =
         map (file_of_key L cs df out)
           (filter (\<lambda>k. 50 < length (source_rows L df cs k)) (group_keys L df cs))"
proof -
  have "map (written_file L cs out) (filter qualifies (grouped L df cs)) =
      map (\<lambda>g. file_of_key L cs df out (fst g))
        (filter (\<lambda>g. 50 < length (source_rows L df cs (fst g))) (grouped L df cs))"
    using written_file_of_key [OF r] qualifies_of_key [OF r]
    by (intro map_cong filter_cong) auto
  also have "\<dots> = map (file_of_key L cs df out)
      (filter (\<lambda>k. 50 < length (source_rows L df cs k)) (map fst (grouped L df cs)))"
    by (simp add: filter_map o_def)
  finally show ?thesis
    by (simp add: grouped_keys [OF r])
qed

lemma process_student_data_explicit:
  assumes "load_table s input_file = Inr t"
    and r: "resolve_columns (normalize_columns t) = Inr cs"
  shows "process_student_data L s input_file output_dir =
     (Inr (length (filter (\<lambda>k. 50 < length (source_rows L (normalize_columns t) cs k))
                     (group_keys L (normalize_columns t) cs))),
      (makedirs output_dir s)\<lparr>files :=
         rev (map (file_of_key L cs (normalize_columns t) output_dir)
                (filter (\<lambda>k. 50 < length (source_rows L (normalize_columns t) cs k))
                   (group_keys L (normalize_columns t) cs))) @ files s\<rparr>)"
proof -
  have "length (filter qualifies (grouped L (normalize_columns t) cs)) =
      length (map (written_file L cs output_dir) (filter qualifies (grouped L (normalize_columns t) cs)))"
    by simp
  then show ?thesis
    unfolding process_student_data_run [OF assms] written_files_of_keys [OF r]
    by simp
qed

subsection \<open>The sample data, evaluated\<close>

lemma filter_replicate: "filter P (replicate n x) = (if P x then replicate n x else [])"
  by (induction n) auto

lemma remdups_replicate: "remdups (replicate n x) = (if n = 0 then [] else [x])"
  by (induction n) auto

lemma sample_suffix: "lower (path_suffix ''in.csv'') = ''.csv''"
  by (simp add: path_suffix_def path_name_def lower_def lower_char_def)

lemma sample_load: "load_table (disk t) ''in.csv'' = Inr t"
  by (simp add: load_table_def sample_suffix read_csv_def read_table_def disk_def)

lemma sample_normalize: "normalize_columns (activity_table ls) = activity_table ls"
  by (simp add: normalize_columns_def activity_table_def activity_columns_def strip_def isspace_def)

lemma sample_lc_map: "lc_map activity_columns = 
  [(''learner - name'', ''Learner - Name''), (''learner - id'', ''Learner - ID''),
   (''completion date'', ''Completion Date''),
   (''learning activity - duration'', ''Learning activity - Duration''),
   (''learning activity - title'', ''Learning activity - Title''),
   (''learning activity - id'', ''Learning activity - ID''),
   (''transcript status'', ''Transcript status'')]"
  by (simp add: lc_map_def activity_columns_def lower_def lower_char_def)

lemma sample_resolve: "resolve_columns (activity_table ls) = Inr activity_cols"
  by (simp add: resolve_columns_def find_col_def activity_table_def sample_lc_map
      lower_def lower_char_def activity_cols_def)

lemma sample_transcript: "transcript_column (activity_table ls) = Some ''Transcript status''"
  by (simp add: transcript_column_def find_col_def activity_table_def sample_lc_map
      lower_def lower_char_def)

lemma sample_cells:
  "get_cell (activity_table ls) (activity_row l) ''Learner - Name'' = Str ''Ann''"
  "get_cell (activity_table ls) (activity_row l) ''Learner - ID'' = Str l"
  "get_cell (activity_table ls) (activity_row l) ''Completion Date'' = Str ''2024-01-05''"
  "get_cell (activity_table ls) (activity_row l) ''Learning activity - Duration'' = Num 2"
  "get_cell (activity_table ls) (activity_row l) ''Learning activity - Title'' = Str ''Intro''"
  "get_cell (activity_table ls) (activity_row l) ''Learning activity - ID'' = Str ''A1''"
  "get_cell (activity_table ls) (activity_row l) ''Transcript status'' = Str ''Completed''"
  by (simp_all add: get_cell_def activity_table_def activity_columns_def activity_row_def
      cell_at_def)

lemma sample_status:
  "status_value sample_lib (activity_table ls) ''Transcript status'' (activity_row l) = ''completed''"
  by (simp add: status_value_def sample_cells astype_str_def lower_def lower_char_def strip_def
      isspace_def)

lemma sample_rows: "rows (activity_table ls) = map activity_row ls"
  by (simp add: activity_table_def)

lemma sample_completed: "completed_rows sample_lib (activity_table ls) = map activity_row ls"
  by (simp add: completed_rows_def sample_transcript sample_rows filter_map o_def sample_status)

lemma filter_eq_replicate: "filter (\<lambda>x. x = a) xs = replicate (count_list xs a) a"
  by (induction xs) auto

lemma count_list_replicate: "count_list (replicate n x) y = (if x = y then n else 0)"
  by (induction n) auto

lemma sample_six:
  "six activity_cols =
     [''Learner - Name'', ''Learning activity - Title'', ''Learner - ID'',
      ''Learning activity - ID'', ''Learning activity - Duration'', ''Completion Date'']"
  by (simp add: six_def activity_cols_def)

lemma sample_parse: "parse_iso_date ''2024-01-05'' = Some \<lparr>year = 2024, month = 1, day = 5\<rparr>"
  by (simp add: parse_iso_date_def digit_value_def)

lemma sample_date: "date_string sample_lib series (Str ''2024-01-05'') = ''2024-01-05''"
  by (simp add: date_string_def sample_lib_def sample_parse date_str_def digit_def)

lemma sample_out_key:
  "out_key sample_lib (activity_table ls) activity_cols (activity_row l) = (Str l, Str ''2024-01-05'')"
  by (simp add: out_key_def activity_cols_def sample_cells sample_date)

lemma sample_keys:
  "group_keys sample_lib (activity_table ls) activity_cols =
     sort_key key_rank (remdups (map (\<lambda>l. (Str l, Str ''2024-01-05'')) ls))"
  by (simp add: group_keys_def sample_completed o_def sample_out_key has_key_def)

lemma sample_source:
  "source_rows sample_lib (activity_table ls) activity_cols (Str l, d) =
     (if d = Str ''2024-01-05'' then replicate (count_list ls l) (activity_row l) else [])"
  by (simp add: source_rows_def sample_completed filter_map o_def sample_out_key
      filter_eq_replicate)

lemma sample_output_row:
  "output_row sample_lib activity_cols (activity_table ls) (activity_row l) =
     [Str ''Ann'', Str ''Intro'', Str l, Str ''A1'', Num 2, Str ''2024-01-05'']"
  by (simp add: output_row_def duration_value_def activity_cols_def sample_cells sample_date
      to_numeric_def fillna0_def)

lemma sample_duration:
  "duration_value sample_lib (activity_table ls) activity_cols (activity_row l) = 2"
  by (simp add: duration_value_def activity_cols_def sample_cells to_numeric_def fillna0_def)

lemma sample_float: "coerced_int64 sample_lib series = False"
  by (simp add: sample_lib_def coerced_int64_def)

lemma sample_report:
  "report_of_key sample_lib activity_cols (activity_table ls) (Str l, Str ''2024-01-05'') =
     \<lparr>columns = [''Learner - Name'', ''Learning activity - Title'', ''Learner - ID'',
                 ''Learning activity - ID'', ''Learning activity - Duration'', ''Completion Date''],
      rows = replicate (count_list ls l)
               [Str ''Ann'', Str ''Intro'', Str l, Str ''A1'', Num 2, Str ''2024-01-05'']
             @ [[Missing, Str ''TOTAL'', Missing, Missing, Num (2 * real (count_list ls l)),
                 Missing]]\<rparr>"
  by (simp add: report_of_key_def sample_source sample_output_row sample_duration
      duration_total_def series_sum_def sample_float sum_list_replicate total_row_def
      sample_six)

lemma sample_filename:
  "report_filename sample_lib (Str l) (Str ''2024-01-05'') =
     ''learner_'' @ replace_char CHR '' '' CHR ''_'' l @ ''_2024-01-05.xlsx''"
  by (simp add: report_filename_def safe_learner_def safe_date_def astype_str_def replace_char_def)

lemma sample_run:
  "process_student_data sample_lib (disk (activity_table ls)) ''in.csv'' ''out'' =
     (Inr (length (filter (\<lambda>k. 50 < length (source_rows sample_lib (activity_table ls) activity_cols k))
                     (group_keys sample_lib (activity_table ls) activity_cols))),
      \<lparr>dirs = {''out''},
       files = rev (map (file_of_key sample_lib activity_cols (activity_table ls) ''out'')
                (filter (\<lambda>k. 50 < length (source_rows sample_lib (activity_table ls) activity_cols k))
                   (group_keys sample_lib (activity_table ls) activity_cols)))
               @ [(''in.csv'', activity_table ls)]\<rparr>)"
  using process_student_data_explicit [of "disk (activity_table ls)" "''in.csv''" "activity_table ls"
      activity_cols sample_lib "''out''"]
  by (simp add: sample_load sample_normalize sample_resolve) (simp add: disk_def makedirs_def)

lemma sample_keys_one:
  "group_keys sample_lib (activity_table (replicate (Suc n) l)) activity_cols =
     [(Str l, Str ''2024-01-05'')]"
  by (simp add: sample_keys remdups_replicate del: replicate.simps)

lemma sample_run_51:
  "process_student_data sample_lib (disk (activity_table (replicate 51 ''L1''))) ''in.csv'' ''out'' =
     (Inr 1,
      \<lparr>dirs = {''out''},
       files = [(''out/learner_L1_2024-01-05.xlsx'',
                 \<lparr>columns = [''Learner - Name'', ''Learning activity - Title'', ''Learner - ID'',
                     ''Learning activity - ID'', ''Learning activity - Duration'', ''Completion Date''],
                  rows = replicate 51
                       [Str ''Ann'', Str ''Intro'', Str ''L1'', Str ''A1'', Num 2, Str ''2024-01-05'']
                     @ [[Missing, Str ''TOTAL'', Missing, Missing, Num 102, Missing]]\<rparr>),
                (''in.csv'', activity_table (replicate 51 ''L1''))]\<rparr>)"
  by (simp add: sample_run sample_keys remdups_replicate sample_source file_of_key_def
      sample_report sample_filename replace_char_def path_join_def count_list_replicate)

lemma sample_run_50:
  "process_student_data sample_lib (disk (activity_table (replicate 50 ''L1''))) ''in.csv'' ''out'' =
     (Inr 0, \<lparr>dirs = {''out''}, files = [(''in.csv'', activity_table (replicate 50 ''L1''))]\<rparr>)"
  by (simp add: sample_run sample_keys remdups_replicate sample_source count_list_replicate)

lemma remdups_append_disjoint:
  "set xs \<inter> set ys = {} \<Longrightarrow> remdups (xs @ ys) = remdups xs @ remdups ys"
  by (induction xs) auto

subsection \<open>Files written by a run\<close>

lemma new_files_append: "files s' = xs @ files s \<Longrightarrow> new_files s s' = xs"
  by (simp add: new_files_def)

lemma process_student_data_new_files:
  assumes "load_table s input_file = Inr t"
    and r: "resolve_columns (normalize_columns t) = Inr cs"
  shows "new_files s (snd (process_student_data L s input_file output_dir)) =
     rev (map (file_of_key L cs (normalize_columns t) output_dir)
            (filter (\<lambda>k. 50 < length (source_rows L (normalize_columns t) cs k))
               (group_keys L (normalize_columns t) cs)))"
  by (rule new_files_append) (simp add: process_student_data_explicit [OF assms])

lemma group_keys_distinct: "distinct (group_keys L df cs)"
  by (simp add: group_keys_def)

lemma unsupported_load:
  assumes "lower (path_suffix input_file) \<notin> {''.xlsx'', ''.xls'', ''.csv''}"
  shows "load_table s input_file = Inl UnsupportedFileType"
  using assms by (simp add: load_table_def Let_def)

lemma txt_suffix: "lower (path_suffix ''notes.txt'') = ''.txt''"
  by (simp add: path_suffix_def path_name_def lower_def lower_char_def)

subsection \<open>Facts about reports, and further sample runs\<close>

lemma distinct_fst: "distinct (map fst xs) \<Longrightarrow> distinct xs"
  by (simp add: distinct_map)

lemma count_list_filter_distinct:
  assumes "distinct xs" and "x \<in> set xs"
  shows "count_list (filter P xs) x = (if P x then 1 else 0)"
  using assms by (induction xs) auto

lemma qualifying_keys:
  assumes r: "resolve_columns df = Inr cs"
  shows "map fst (filter qualifies (grouped L df cs)) =
         filter (\<lambda>k. 50 < length (source_rows L df cs k)) (group_keys L df cs)"
proof -
  have "filter qualifies (grouped L df cs) =
      filter (\<lambda>g. 50 < length (source_rows L df cs (fst g))) (grouped L df cs)"
    using qualifies_of_key [OF r] by (intro filter_cong) auto
  then show ?thesis
    by (simp add: filter_map o_def grouped_keys [OF r, symmetric])
qed

lemma lc_map_equal_case: "lc_map [''Learner -ID'', ''LEARNER -ID''] = [(''learner -id'', ''LEARNER -ID'')]"
  by (simp add: lc_map_def lower_def lower_char_def)

lemma lower_samples:
  "lower ''Learner - ID'' = ''learner - id''"
  "lower ''Learner -ID'' = ''learner -id''"
  "lower ''learner - id'' = ''learner - id''"
  "lower ''Learner - Name'' = ''learner - name''"
  "lower ''LearnerID'' = ''learnerid''"
  by (simp_all add: lower_def lower_char_def)

lemma remove_ws_samples:
  "remove_ws ''learner - id'' = ''learner-id''"
  "remove_ws ''learner -id'' = ''learner-id''"
  "remove_ws ''learner - name'' = ''learner-name''"
  "remove_ws ''learnerid'' = ''learnerid''"
  by (simp_all add: remove_ws_def isspace_def)

lemma sample_distinct: "distinct (columns (normalize_columns (activity_table ls)))"
  by (simp add: sample_normalize) (simp add: activity_table_def activity_columns_def)

lemma sample_new_files:
  "new_files (disk (activity_table ls))
     (snd (process_student_data sample_lib (disk (activity_table ls)) ''in.csv'' ''out'')) =
   rev (map (file_of_key sample_lib activity_cols (activity_table ls) ''out'')
          (filter (\<lambda>k. 50 < length (source_rows sample_lib (activity_table ls) activity_cols k))
             (group_keys sample_lib (activity_table ls) activity_cols)))"
  using process_student_data_new_files [OF sample_load, of "activity_table ls" activity_cols
      sample_lib "''out''"]
  by (simp add: sample_normalize sample_resolve)

lemma sample_new_files_51:
  "new_files (disk (activity_table (replicate 51 l)))
     (snd (process_student_data sample_lib (disk (activity_table (replicate 51 l)))
             ''in.csv'' ''out'')) =
   [(path_join ''out'' (report_filename sample_lib (Str l) (Str ''2024-01-05'')),
     \<lparr>columns = [''Learner - Name'', ''Learning activity - Title'', ''Learner - ID'',
                 ''Learning activity - ID'', ''Learning activity - Duration'', ''Completion Date''],
      rows = replicate 51 [Str ''Ann'', Str ''Intro'', Str l, Str ''A1'', Num 2, Str ''2024-01-05'']
             @ [[Missing, Str ''TOTAL'', Missing, Missing, Num 102, Missing]]\<rparr>)]"
  by (simp add: sample_new_files sample_keys remdups_replicate sample_source file_of_key_def
      sample_report count_list_replicate)

lemma sample_new_files_50:
  "new_files (disk (activity_table (replicate 50 l)))
     (snd (process_student_data sample_lib (disk (activity_table (replicate 50 l)))
             ''in.csv'' ''out'')) = []"
  by (simp add: sample_new_files sample_keys remdups_replicate sample_source count_list_replicate)

lemma rows_normalize_columns: "rows (normalize_columns t) = rows t"
  by (simp add: normalize_columns_def)

lemma listdir_files: "files s' = files s \<Longrightarrow> listdir s' d = listdir s d"
  by (simp add: listdir_def)

lemma no_group_qualifies:
  assumes "\<forall>g\<in>set gs. length (rows (snd g)) \<le> 50"
  shows "filter qualifies gs = []"
  using assms by (auto simp: filter_empty_conv qualifies_def)

lemma stale_load: "load_table (stale_disk t) ''in.csv'' = Inr t"
  by (simp add: load_table_def sample_suffix read_csv_def read_table_def stale_disk_def)

lemma stale_listdir: "listdir (stale_disk t) ''out'' = [''out/old.xlsx'']"
proof -
  have p: "path_join ''out'' [] = ''out/''"
    by (simp add: path_join_def)
  have "in_dir ''out'' ''out/old.xlsx''" "\<not> in_dir ''out'' ''in.csv''"
    by (simp_all add: in_dir_def p)
  then show ?thesis
    by (simp add: listdir_def stale_disk_def)
qed

lemma sample_listdir: "listdir (disk t) ''out'' = []"
proof -
  have p: "path_join ''out'' [] = ''out/''"
    by (simp add: path_join_def)
  have "\<not> in_dir ''out'' ''in.csv''"
    by (simp add: in_dir_def p)
  then show ?thesis
    by (simp add: listdir_def disk_def)
qed

lemma new_file_report:
  assumes l: "load_table s input_file = Inr t"
    and r: "resolve_columns (normalize_columns t) = Inr cs"
    and m: "(p, rep) \<in> set (new_files s (snd (process_student_data L s input_file output_dir)))"
  obtains k where "k \<in> set (group_keys L (normalize_columns t) cs)"
    and "50 < length (source_rows L (normalize_columns t) cs k)"
    and "p = path_join output_dir (report_filename L (fst k) (snd k))"
    and "rep = report_of_key L cs (normalize_columns t) k"
  using m unfolding process_student_data_new_files [OF l r]
  by (auto simp: file_of_key_def)


lemma butlast_report_of_key:
  "butlast (rows (report_of_key L cs df k)) = map (output_row L cs df) (source_rows L df cs k)"
  by (simp add: report_of_key_def butlast_append)


lemma source_rows_subset: "set (source_rows L df cs k) \<subseteq> set (completed_rows L df)"
  by (auto simp: source_rows_def)

lemma completed_rows_subset: "set (completed_rows L df) \<subseteq> set (rows df)"
  by (auto simp: completed_rows_def split: option.splits)

lemma completed_rows_status:
  "r \<in> set (completed_rows L df) \<Longrightarrow> transcript_column df = Some c \<Longrightarrow>
   status_value L df c r = ''completed''"
  by (simp add: completed_rows_def)




lemma sample_new_files_report:
  "new_files (disk (activity_table (replicate 51 l)))
     (snd (process_student_data sample_lib (disk (activity_table (replicate 51 l)))
             ''in.csv'' ''out'')) =
   [(path_join ''out'' (report_filename sample_lib (Str l) (Str ''2024-01-05'')),
     activity_report l 51)]"
  unfolding sample_new_files_51 by (simp add: activity_report_def)

lemma activity_report_parts:
  "butlast (rows (activity_report l n)) =
     replicate n [Str ''Ann'', Str ''Intro'', Str l, Str ''A1'', Num 2, Str ''2024-01-05'']"
  "last (rows (activity_report l n)) =
     [Missing, Str ''TOTAL'', Missing, Missing, Num (2 * real n), Missing]"
  "columns (activity_report l n) = six activity_cols"
  by (simp_all add: activity_report_def butlast_append sample_six)


lemma plain_normalize: "normalize_columns (plain_table ls) = plain_table ls"
  by (simp add: normalize_columns_def plain_table_def strip_def isspace_def)

lemma plain_lc_map:
  "lc_map (columns (plain_table ls)) =
     [(''learner - name'', ''Learner - Name''), (''learner - id'', ''Learner - ID''),
      (''completion date'', ''Completion Date''),
      (''learning activity - duration'', ''Learning activity - Duration''),
      (''learning activity - title'', ''Learning activity - Title''),
      (''learning activity - id'', ''Learning activity - ID'')]"
  by (simp add: lc_map_def plain_table_def lower_def lower_char_def)

lemma plain_resolve: "resolve_columns (plain_table ls) = Inr activity_cols"
  by (simp add: resolve_columns_def find_col_def plain_lc_map lower_def lower_char_def
      activity_cols_def)

lemma lower_status: "lower ''Transcript status'' = ''transcript status''"
  by (simp add: lower_def lower_char_def)

lemma remove_ws_plain:
  "remove_ws ''transcript status'' = ''transcriptstatus''"
  "remove_ws ''learner - name'' = ''learner-name''"
  "remove_ws ''learner - id'' = ''learner-id''"
  "remove_ws ''completion date'' = ''completiondate''"
  "remove_ws ''learning activity - duration'' = ''learningactivity-duration''"
  "remove_ws ''learning activity - title'' = ''learningactivity-title''"
  "remove_ws ''learning activity - id'' = ''learningactivity-id''"
  by (simp_all add: remove_ws_def isspace_def)

lemma plain_transcript: "transcript_column (plain_table ls) = None"
  by (simp add: transcript_column_def find_col_def plain_lc_map lower_status remove_ws_plain)

lemma plain_distinct: "distinct (columns (normalize_columns (plain_table ls)))"
  by (simp add: plain_normalize) (simp add: plain_table_def)

lemma activity_report_row:
  "[Str ''Ann'', Str ''Intro'', Str l, Str ''A1'', Num 2, Str ''2024-01-05'']
     \<in> set (butlast (rows (activity_report l 51)))"
  by (simp add: activity_report_parts(1))


lemma group_keys_date:
  assumes "k \<in> set (group_keys L df cs)"
  obtains c where "snd k = Str (date_string L (date_series L df cs) c)"
  using assms by (auto simp: group_keys_def out_key_def)

lemma sort_key_two: "sort_key f [a, b] = (if f a \<le> f b then [a, b] else [b, a])"
  by simp

lemma key_rank_le: "l1 < l2 \<Longrightarrow> key_rank (Str l1, d) \<le> key_rank (Str l2, d)"
  by (simp add: key_rank_def cell_rank_def less_eq_prod_def less_prod_def)

lemma sample_keys_two:
  assumes "l1 < l2"
  shows "group_keys sample_lib (activity_table (replicate (Suc m) l1 @ replicate (Suc n) l2))
           activity_cols = [(Str l1, Str ''2024-01-05''), (Str l2, Str ''2024-01-05'')]"
proof -
  from assms have ne: "l1 \<noteq> l2"
    by auto
  have "remdups (map (\<lambda>l. (Str l, Str ''2024-01-05'')) (replicate (Suc m) l1 @ replicate (Suc n) l2))
      = [(Str l1, Str ''2024-01-05''), (Str l2, Str ''2024-01-05'')]"
    using ne by (simp add: remdups_append_disjoint remdups_replicate del: replicate.simps)
  then show ?thesis
    unfolding sample_keys by (simp add: key_rank_le [OF assms])
qed

lemma sample_new_files_two:
  assumes "l1 < l2"
  shows "new_files (disk (activity_table (replicate 51 l1 @ replicate 51 l2)))
     (snd (process_student_data sample_lib (disk (activity_table (replicate 51 l1 @ replicate 51 l2)))
             ''in.csv'' ''out'')) =
   [(path_join ''out'' (report_filename sample_lib (Str l2) (Str ''2024-01-05'')),
     activity_report l2 51),
    (path_join ''out'' (report_filename sample_lib (Str l1) (Str ''2024-01-05'')),
     activity_report l1 51)]"
proof -
  from assms have ne: "l1 \<noteq> l2"
    by auto
  have k: "group_keys sample_lib (activity_table (replicate 51 l1 @ replicate 51 l2)) activity_cols
      = [(Str l1, Str ''2024-01-05''), (Str l2, Str ''2024-01-05'')]"
    using sample_keys_two [OF assms, of 50 50] by simp
  show ?thesis
    unfolding sample_new_files k
    using ne
    by (simp add: sample_source count_list_replicate file_of_key_def sample_report
        activity_report_def)
qed

lemma sample_paths:
  "path_join ''out'' (report_filename sample_lib (Str ''A B'') (Str ''2024-01-05''))
     = ''out/learner_A_B_2024-01-05.xlsx''"
  "path_join ''out'' (report_filename sample_lib (Str ''A_B'') (Str ''2024-01-05''))
     = ''out/learner_A_B_2024-01-05.xlsx''"
  "path_join ''out'' (report_filename sample_lib (Str ''L1'') (Str ''2024-01-05''))
     = ''out/learner_L1_2024-01-05.xlsx''"
  "path_join ''out'' (report_filename sample_lib (Str ''L2'') (Str ''2024-01-05''))
     = ''out/learner_L2_2024-01-05.xlsx''"
  by (simp_all add: sample_filename replace_char_def path_join_def)

lemma sample_order: "(''A B'' :: string) < ''A_B''" "(''L1'' :: string) < ''L2''"
  by simp_all

lemma sample_groups_50:
  "map fst (grouped sample_lib (normalize_columns (activity_table (replicate 50 ''L1''))) activity_cols)
     = [(Str ''L1'', Str ''2024-01-05'')]"
  "list_all (\<lambda>g. length (rows (snd g)) \<le> 50)
     (grouped sample_lib (normalize_columns (activity_table (replicate 50 ''L1''))) activity_cols)"
proof -
  let ?t = "activity_table (replicate 50 ''L1'')"
  have r: "resolve_columns (normalize_columns ?t) = Inr activity_cols"
    by (simp only: sample_normalize sample_resolve)
  show "map fst (grouped sample_lib (normalize_columns ?t) activity_cols)
     = [(Str ''L1'', Str ''2024-01-05'')]"
    unfolding sample_normalize grouped_keys [OF sample_resolve] sample_keys
    by (simp add: remdups_replicate)
  have "length (rows (snd g)) \<le> 50" if "g \<in> set (grouped sample_lib (normalize_columns ?t) activity_cols)"
    for g
  proof -
    have "length (rows (snd g)) = length (source_rows sample_lib (normalize_columns ?t) activity_cols (fst g))"
      by (rule length_group [OF r that])
    also have "\<dots> \<le> length (completed_rows sample_lib (normalize_columns ?t))"
      unfolding source_rows_def by (rule length_filter_le)
    also have "\<dots> = 50"
      unfolding sample_normalize sample_completed by simp
    finally show ?thesis .
  qed
  then show "list_all (\<lambda>g. length (rows (snd g)) \<le> 50)
     (grouped sample_lib (normalize_columns ?t) activity_cols)"
    by (simp add: list_all_iff)
qed

text \<open>
  The scenario of the specification: 60 activities of learner \<^verbatim>\<open>L1\<close> with durations
  summing to 120 and 10 activities of learner \<^verbatim>\<open>L2\<close>, all on 2024-01-05, leave exactly
  one file, \<^verbatim>\<open>learner_L1_2024-01-05.xlsx\<close>, whose last row holds the duration 120.
\<close>

lemma sample_scenario:
  "process_student_data sample_lib
     (disk (activity_table (replicate 60 ''L1'' @ replicate 10 ''L2''))) ''in.csv'' ''out'' =
   (Inr 1,
    \<lparr>dirs = {''out''},
     files = [(''out/learner_L1_2024-01-05.xlsx'', activity_report ''L1'' 60),
              (''in.csv'', activity_table (replicate 60 ''L1'' @ replicate 10 ''L2''))]\<rparr>)"
proof -
  have k: "group_keys sample_lib (activity_table (replicate 60 ''L1'' @ replicate 10 ''L2''))
      activity_cols = [(Str ''L1'', Str ''2024-01-05''), (Str ''L2'', Str ''2024-01-05'')]"
    using sample_keys_two [OF sample_order(2), of 59 9] by simp
  show ?thesis
    unfolding sample_run k
    by (simp add: sample_source count_list_replicate file_of_key_def sample_report
        activity_report_def sample_paths)
qed

subsection \<open>The sum of a column\<close>







lemma duration_cells_report:
  assumes "r \<in> set rs"
  shows "get_cell df r (col_duration cs) \<in> set (map (\<lambda>r. get_cell df r (col_duration cs)) rs)"
  using assms by simp

subsection \<open>A run on an integer column\<close>
































section \<open>The claims\<close>

subsection \<open>C1: the count returned and the output directory\<close>

text \<open>
  Claim C1, as stated: for every input file and output directory the function creates the
  output directory if absent, returns the number of qualifying groups written, and, when
  the input has 0 rows or every group has at most 50 rows, returns 0 and leaves an output
  directory that exists but contains no files. The function never removes a file: called
  on an input of 0 rows with an output directory that already holds \<^verbatim>\<open>old.xlsx\<close>, it
  returns 0 and the directory still contains that file.
\<close>

theorem no_qualifying_group_keeps_older_files:
  "rows (activity_table []) = []
   \<and> fst (process_student_data sample_lib (stale_disk (activity_table [])) ''in.csv'' ''out'') = Inr 0
   \<and> listdir (snd (process_student_data sample_lib (stale_disk (activity_table [])) ''in.csv'' ''out''))
        ''out'' = [''out/old.xlsx'']"
proof -
  have r: "resolve_columns (normalize_columns (activity_table [])) = Inr activity_cols"
    by (simp only: sample_normalize sample_resolve)
  have g: "grouped sample_lib (normalize_columns (activity_table [])) activity_cols = []"
    by (rule grouped_no_rows) (simp add: rows_normalize_columns sample_rows)
  note run = process_student_data_run [OF stale_load r, of sample_lib "''out''", unfolded g]
  have "listdir (snd (process_student_data sample_lib (stale_disk (activity_table [])) ''in.csv'' ''out''))
        ''out'' = listdir (stale_disk (activity_table [])) ''out''"
    by (rule listdir_files) (simp add: run files_makedirs)
  then show ?thesis
    by (simp add: run stale_listdir sample_rows)
qed

text \<open>
  Claim C1, amended: for every input file and output directory the function creates the
  output directory if absent and leaves it as it is otherwise; for an input that loads, with
  unique labels and the required columns, it returns the number of qualifying groups, one
  file written for each; when the input has 0 rows or every group has at most 50 rows it
  returns 0 (not an error) and writes no file, so the output directory exists and contains
  exactly the files it contained before the call.
\<close>

theorem process_student_data_count_and_directory:
  "dirs (snd (process_student_data L s input_file output_dir)) = insert output_dir (dirs s)
   \<and> (load_table s input_file = Inr t \<longrightarrow>
      distinct (columns (normalize_columns t)) \<longrightarrow>
      resolve_columns (normalize_columns t) = Inr cs \<longrightarrow>
        fst (process_student_data L s input_file output_dir) =
          Inr (length (filter qualifies (grouped L (normalize_columns t) cs)))
      \<and> length (new_files s (snd (process_student_data L s input_file output_dir))) =
          length (filter qualifies (grouped L (normalize_columns t) cs))
      \<and> (rows t = [] \<or>
           (\<forall>g\<in>set (grouped L (normalize_columns t) cs). length (rows (snd g)) \<le> 50) \<longrightarrow>
             fst (process_student_data L s input_file output_dir) = Inr 0
           \<and> files (snd (process_student_data L s input_file output_dir)) = files s
           \<and> listdir (snd (process_student_data L s input_file output_dir)) output_dir =
               listdir s output_dir))"
proof (intro conjI impI)
  show "dirs (snd (process_student_data L s input_file output_dir)) = insert output_dir (dirs s)"
    by (rule process_student_data_dirs)
next
  assume l: "load_table s input_file = Inr t"
    and r: "resolve_columns (normalize_columns t) = Inr cs"
  note run = process_student_data_run [OF l r, of L output_dir]
  show "fst (process_student_data L s input_file output_dir) =
          Inr (length (filter qualifies (grouped L (normalize_columns t) cs)))"
    by (simp add: run)
  show "length (new_files s (snd (process_student_data L s input_file output_dir))) =
          length (filter qualifies (grouped L (normalize_columns t) cs))"
    by (simp add: run new_files_def)
  assume "rows t = [] \<or>
      (\<forall>g\<in>set (grouped L (normalize_columns t) cs). length (rows (snd g)) \<le> 50)"
  then have q: "filter qualifies (grouped L (normalize_columns t) cs) = []"
  proof
    assume "rows t = []"
    then have "grouped L (normalize_columns t) cs = []"
      by (intro grouped_no_rows) (simp add: rows_normalize_columns)
    then show ?thesis by simp
  next
    assume "\<forall>g\<in>set (grouped L (normalize_columns t) cs). length (rows (snd g)) \<le> 50"
    then show ?thesis by (rule no_group_qualifies)
  qed
  show "fst (process_student_data L s input_file output_dir) = Inr 0"
    by (simp add: run q)
  show f: "files (snd (process_student_data L s input_file output_dir)) = files s"
    by (simp add: run q files_makedirs)
  show "listdir (snd (process_student_data L s input_file output_dir)) output_dir =
               listdir s output_dir"
    by (rule listdir_files) (rule f)
qed

text \<open>The witness: an input of 0 rows, and an input whose one group has exactly 50 rows.\<close>

theorem process_student_data_count_and_directory_witness:
  "load_table (disk (activity_table [])) ''in.csv'' = Inr (activity_table [])
   \<and> distinct (columns (normalize_columns (activity_table [])))
   \<and> resolve_columns (normalize_columns (activity_table [])) = Inr activity_cols
   \<and> rows (activity_table []) = []
   \<and> dirs (snd (process_student_data sample_lib (disk (activity_table [])) ''in.csv'' ''out''))
       = {''out''}
   \<and> fst (process_student_data sample_lib (disk (activity_table [])) ''in.csv'' ''out'') = Inr 0
   \<and> files (snd (process_student_data sample_lib (disk (activity_table [])) ''in.csv'' ''out''))
       = files (disk (activity_table []))
   \<and> listdir (snd (process_student_data sample_lib (disk (activity_table [])) ''in.csv'' ''out''))
        ''out'' = []
   \<and> load_table (disk (activity_table (replicate 50 ''L1''))) ''in.csv''
       = Inr (activity_table (replicate 50 ''L1''))
   \<and> distinct (columns (normalize_columns (activity_table (replicate 50 ''L1''))))
   \<and> resolve_columns (normalize_columns (activity_table (replicate 50 ''L1''))) = Inr activity_cols
   \<and> map fst (grouped sample_lib (normalize_columns (activity_table (replicate 50 ''L1'')))
        activity_cols) = [(Str ''L1'', Str ''2024-01-05'')]
   \<and> list_all (\<lambda>g. length (rows (snd g)) \<le> 50)
        (grouped sample_lib (normalize_columns (activity_table (replicate 50 ''L1''))) activity_cols)
   \<and> fst (process_student_data sample_lib (disk (activity_table (replicate 50 ''L1'')))
        ''in.csv'' ''out'') = Inr 0
   \<and> listdir (snd (process_student_data sample_lib (disk (activity_table (replicate 50 ''L1'')))
        ''in.csv'' ''out'')) ''out'' = []"
proof -
  let ?t = "activity_table []"
  let ?u = "activity_table (replicate 50 ''L1'')"
  have l: "load_table (disk ?t) ''in.csv'' = Inr ?t"
    and l': "load_table (disk ?u) ''in.csv'' = Inr ?u"
    by (rule sample_load)+
  have d: "distinct (columns (normalize_columns ?t))"
    and d': "distinct (columns (normalize_columns ?u))"
    by (rule sample_distinct)+
  have r: "resolve_columns (normalize_columns ?t) = Inr activity_cols"
    and r': "resolve_columns (normalize_columns ?u) = Inr activity_cols"
    by (simp_all only: sample_normalize sample_resolve)
  have e: "rows ?t = []"
    by (simp add: sample_rows)
  note k' = sample_groups_50(1)
  note e' = sample_groups_50(2)
  have e'': "\<forall>g\<in>set (grouped sample_lib (normalize_columns ?u) activity_cols).
      length (rows (snd g)) \<le> 50"
    using e' by (simp add: list_all_iff)
  note th = process_student_data_count_and_directory
    [of sample_lib "disk ?t" "''in.csv''" "''out''" ?t activity_cols]
  note th' = process_student_data_count_and_directory
    [of sample_lib "disk ?u" "''in.csv''" "''out''" ?u activity_cols]
  have a: "dirs (snd (process_student_data sample_lib (disk ?t) ''in.csv'' ''out'')) = {''out''}"
    using th [THEN conjunct1] by (simp add: disk_def)
  note c = th [THEN conjunct2, rule_format, OF l d r, THEN conjunct2, THEN conjunct2,
      rule_format, OF disjI1, OF e]
  note c' = th' [THEN conjunct2, rule_format, OF l' d' r', THEN conjunct2, THEN conjunct2,
      rule_format, OF disjI2, OF e'']
  have b: "fst (process_student_data sample_lib (disk ?t) ''in.csv'' ''out'') = Inr 0"
    by (rule c [THEN conjunct1])
  have f: "files (snd (process_student_data sample_lib (disk ?t) ''in.csv'' ''out''))
       = files (disk ?t)"
    by (rule c [THEN conjunct2, THEN conjunct1])
  have g: "listdir (snd (process_student_data sample_lib (disk ?t) ''in.csv'' ''out'')) ''out'' = []"
    using c [THEN conjunct2, THEN conjunct2] by (simp add: sample_listdir)
  have b': "fst (process_student_data sample_lib (disk ?u) ''in.csv'' ''out'') = Inr 0"
    by (rule c' [THEN conjunct1])
  have g': "listdir (snd (process_student_data sample_lib (disk ?u) ''in.csv'' ''out'')) ''out'' = []"
    using c' [THEN conjunct2, THEN conjunct2] by (simp add: sample_listdir)
  show ?thesis
    by (intro conjI) (fact l d r e a b f g l' d' r' k' e' b' g')+
qed

subsection \<open>C2: the threshold\<close>

text \<open>
  Claim C2: a file is produced for a group of the filtered table if and only if the group
  has strictly more than 50 rows; a group of exactly 50 rows produces none, a group of 51
  rows exactly one. For an input that loads, with unique labels and the required columns,
  the files written by the run are, in order, the files of the groups that have more than
  50 rows, and every group occurs among those once if it has more than 50 rows and not at
  all otherwise.
\<close>

theorem report_written_iff_more_than_50_rows:
  assumes "load_table s input_file = Inr t"
    and "distinct (columns (normalize_columns t))"
    and "resolve_columns (normalize_columns t) = Inr cs"
  shows "new_files s (snd (process_student_data L s input_file output_dir)) =
           rev (map (written_file L cs output_dir)
                  (filter qualifies (grouped L (normalize_columns t) cs)))
       \<and> (\<forall>g \<in> set (grouped L (normalize_columns t) cs).
             count_list (filter qualifies (grouped L (normalize_columns t) cs)) g =
               (if 50 < length (rows (snd g)) then 1 else 0))"
proof -
  have "distinct (grouped L (normalize_columns t) cs)"
    by (rule distinct_fst) (rule grouped_keys_distinct)
  then show ?thesis
    by (simp add: process_student_data_run [OF assms(1,3)] new_files_append
        count_list_filter_distinct qualifies_def)
qed

text \<open>The witness: 50 activities of a learner on one day write nothing, 51 write one file.\<close>

theorem report_written_iff_more_than_50_rows_witness:
  "load_table (disk (activity_table (replicate 50 ''L1''))) ''in.csv''
     = Inr (activity_table (replicate 50 ''L1''))
   \<and> load_table (disk (activity_table (replicate 51 ''L1''))) ''in.csv''
     = Inr (activity_table (replicate 51 ''L1''))
   \<and> distinct (columns (normalize_columns (activity_table (replicate 50 ''L1''))))
   \<and> distinct (columns (normalize_columns (activity_table (replicate 51 ''L1''))))
   \<and> resolve_columns (normalize_columns (activity_table (replicate 50 ''L1''))) = Inr activity_cols
   \<and> resolve_columns (normalize_columns (activity_table (replicate 51 ''L1''))) = Inr activity_cols
   \<and> filter qualifies
        (grouped sample_lib (normalize_columns (activity_table (replicate 50 ''L1''))) activity_cols)
       = []
   \<and> length (filter qualifies
        (grouped sample_lib (normalize_columns (activity_table (replicate 51 ''L1''))) activity_cols))
       = 1
   \<and> map fst (new_files (disk (activity_table (replicate 51 ''L1'')))
        (snd (process_student_data sample_lib (disk (activity_table (replicate 51 ''L1'')))
               ''in.csv'' ''out'')))
       = [''out/learner_L1_2024-01-05.xlsx'']"
proof -
  let ?t50 = "activity_table (replicate 50 ''L1'')" and ?t51 = "activity_table (replicate 51 ''L1'')"
  have l50: "load_table (disk ?t50) ''in.csv'' = Inr ?t50"
    and l51: "load_table (disk ?t51) ''in.csv'' = Inr ?t51"
    by (rule sample_load)+
  have d50: "distinct (columns (normalize_columns ?t50))"
    and d51: "distinct (columns (normalize_columns ?t51))"
    by (rule sample_distinct)+
  have r50: "resolve_columns (normalize_columns ?t50) = Inr activity_cols"
    and r51: "resolve_columns (normalize_columns ?t51) = Inr activity_cols"
    by (simp_all only: sample_normalize sample_resolve)
  note a = report_written_iff_more_than_50_rows [OF l50 d50 r50, of sample_lib "''out''", THEN conjunct1]
  note b = report_written_iff_more_than_50_rows [OF l51 d51 r51, of sample_lib "''out''", THEN conjunct1]
  have q50: "filter qualifies (grouped sample_lib (normalize_columns ?t50) activity_cols) = []"
    using a unfolding sample_new_files_50 by simp
  have "length (new_files (disk ?t51)
      (snd (process_student_data sample_lib (disk ?t51) ''in.csv'' ''out''))) = 1"
    unfolding sample_new_files_51 by simp
  then have q51: "length (filter qualifies (grouped sample_lib (normalize_columns ?t51) activity_cols)) = 1"
    unfolding b by simp
  have f51: "map fst (new_files (disk ?t51)
      (snd (process_student_data sample_lib (disk ?t51) ''in.csv'' ''out'')))
      = [''out/learner_L1_2024-01-05.xlsx'']"
    unfolding sample_new_files_51
    by (simp add: sample_filename replace_char_def path_join_def)
  show ?thesis
    by (intro conjI) (fact l50 l51 d50 d51 r50 r51 q50 q51 f51)+
qed

subsection \<open>C3: the columns of a report\<close>

text \<open>
  Claim C3: every report contains exactly the columns Title, Learner ID, Activity ID,
  Duration, Completion Date, in that order, one row per source row, then one row with
  Title \<^verbatim>\<open>TOTAL\<close> and the total duration. Line 84 selects six columns, the learner's name
  first. For 51 activities of learner \<^verbatim>\<open>L1\<close> the one report written has the six labels
  below; its rows and its last row are as the claim says.
\<close>

theorem report_has_learner_name_column:
  "new_files (disk (activity_table (replicate 51 ''L1'')))
     (snd (process_student_data sample_lib (disk (activity_table (replicate 51 ''L1'')))
             ''in.csv'' ''out'')) =
   [(''out/learner_L1_2024-01-05.xlsx'',
     \<lparr>columns = [''Learner - Name'', ''Learning activity - Title'', ''Learner - ID'',
                 ''Learning activity - ID'', ''Learning activity - Duration'', ''Completion Date''],
      rows = replicate 51 [Str ''Ann'', Str ''Intro'', Str ''L1'', Str ''A1'', Num 2, Str ''2024-01-05'']
             @ [[Missing, Str ''TOTAL'', Missing, Missing, Num 102, Missing]]\<rparr>)]"
  unfolding sample_new_files_51
  by (simp add: sample_filename replace_char_def path_join_def)

subsection \<open>C4: the total duration\<close>




subsection \<open>C5: column resolution\<close>

text \<open>
  Claim C5, as stated: resolution tries an exact case-insensitive match in candidate order,
  then compares with all whitespace removed, case-insensitively, where the first table
  column (in table order) matching any candidate wins, and fails with the candidates and
  the available columns otherwise. \<^const>\<open>find_col_spec\<close> is that rule. The program looks
  the headers up in a dictionary keyed by the lower-cased header, and a dictionary keeps the
  last header of each key: with the headers \<^verbatim>\<open>Learner -ID\<close> and \<^verbatim>\<open>LEARNER -ID\<close> and the
  candidate \<^verbatim>\<open>Learner - ID\<close>, the first matching table column is \<^verbatim>\<open>Learner -ID\<close> and the
  program returns \<^verbatim>\<open>LEARNER -ID\<close>.
\<close>

theorem find_col_returns_last_header_of_equal_case:
  "find_col \<lparr>columns = [''Learner -ID'', ''LEARNER -ID''], rows = []\<rparr> [''Learner - ID'']
     = Inr ''LEARNER -ID''
   \<and> find_col_spec \<lparr>columns = [''Learner -ID'', ''LEARNER -ID''], rows = []\<rparr> [''Learner - ID'']
     = Inr ''Learner -ID''"
proof -
  have a: "lower ''Learner - ID'' = ''learner - id''" "lower ''Learner -ID'' = ''learner -id''"
    "lower ''LEARNER -ID'' = ''learner -id''"
    by (simp_all add: lower_def lower_char_def)
  have b: "remove_ws ''learner - id'' = ''learner-id''" "remove_ws ''learner -id'' = ''learner-id''"
    by (simp_all add: remove_ws_def isspace_def)
  show ?thesis
    by (simp add: find_col_def lc_map_equal_case find_col_spec_def a b)
qed

text \<open>
  Claim C5, amended: resolution selects a header by the rule of the claim (exact
  case-insensitive match in candidate order; else the first table column, in table order,
  that matches a candidate once whitespace and case are ignored; else the error listing the
  candidates and the available columns), and returns the last table column that equals the
  selected header ignoring case. When no two headers are equal ignoring case, that is the
  selected header itself. The witness resolves the three headers \<^verbatim>\<open>learner - id\<close>,
  \<^verbatim>\<open>Learner -ID\<close> and \<^verbatim>\<open>Learner - ID\<close>, prefers an exact match to an earlier fuzzy
  one, and shows the error.
\<close>

theorem find_col_resolution:
  "find_col df candidates =
     (case find_col_spec df candidates of
        Inl e \<Rightarrow> Inl e
      | Inr c \<Rightarrow> Inr (last (filter (\<lambda>c'. lower c' = lower c) (columns df))))"
  unfolding find_col_char last_same_case_def by (rule refl)

theorem find_col_resolution_witness:
  "find_col \<lparr>columns = [''Learner - Name'', ''learner - id''], rows = []\<rparr> [''Learner - ID'']
     = Inr ''learner - id''
   \<and> find_col \<lparr>columns = [''Learner - Name'', ''Learner -ID''], rows = []\<rparr> [''Learner - ID'']
     = Inr ''Learner -ID''
   \<and> find_col \<lparr>columns = [''Learner - Name'', ''Learner - ID''], rows = []\<rparr> [''Learner - ID'']
     = Inr ''Learner - ID''
   \<and> find_col \<lparr>columns = [''LearnerID'', ''learner - id''], rows = []\<rparr> [''Learner - ID'']
     = Inr ''learner - id''
   \<and> find_col \<lparr>columns = [''Learner - Name''], rows = []\<rparr> [''Learner - ID'']
     = Inl (ColumnNotFound [''Learner - ID''] [''Learner - Name''])"
  unfolding find_col_resolution
  by (simp add: find_col_spec_def lower_samples remove_ws_samples)

subsection \<open>C6: the status filter\<close>

text \<open>
  Claim C6: when a status column is resolved, a row appears in a report only if its status,
  trimmed and lower-cased, is \<^verbatim>\<open>completed\<close>; when there is no status column, that is not
  an error and the table passes the filter unchanged. Every row of a written report but the
  last is the report row of a loaded row, and that loaded row has the status
  \<^verbatim>\<open>completed\<close> whenever a status column is resolved.
\<close>

theorem only_completed_rows_are_reported:
  assumes "load_table s input_file = Inr t"
    and "distinct (columns (normalize_columns t))"
    and "resolve_columns (normalize_columns t) = Inr cs"
  shows "(\<forall>(p, rep)\<in>set (new_files s (snd (process_student_data L s input_file output_dir))).
           \<forall>x\<in>set (butlast (rows rep)). \<exists>r\<in>set (rows t).
             x = output_row L cs (normalize_columns t) r
             \<and> (\<forall>c. transcript_column (normalize_columns t) = Some c \<longrightarrow>
                    status_value L (normalize_columns t) c r = ''completed''))
       \<and> (transcript_column (normalize_columns t) = None \<longrightarrow>
            fst (process_student_data L s input_file output_dir) =
              Inr (length (filter qualifies (grouped L (normalize_columns t) cs)))
          \<and> filter_completed L (normalize_columns t) (transcript_column (normalize_columns t)) =
              normalize_columns t)"
proof (intro conjI impI ballI)
  let ?df = "normalize_columns t"
  fix f x assume m: "f \<in> set (new_files s (snd (process_student_data L s input_file output_dir)))"
  obtain p rep where f: "f = (p, rep)" by (cases f)
  from new_file_report [OF assms(1,3) m [unfolded f]] obtain k
    where rep: "rep = report_of_key L cs ?df k"
    by blast
  have "\<exists>r\<in>set (rows t). x = output_row L cs ?df r
             \<and> (\<forall>c. transcript_column ?df = Some c \<longrightarrow> status_value L ?df c r = ''completed'')"
    if "x \<in> set (butlast (rows rep))" for x
  proof -
    from that obtain r where r: "r \<in> set (source_rows L ?df cs k)" and x: "x = output_row L cs ?df r"
      by (auto simp: rep butlast_report_of_key)
    from r have c: "r \<in> set (completed_rows L ?df)"
      using source_rows_subset by blast
    then have "r \<in> set (rows t)"
      using completed_rows_subset [of L ?df] by (auto simp: rows_normalize_columns)
    with x completed_rows_status [OF c] show ?thesis
      by blast
  qed
  then show "case f of (p, rep) \<Rightarrow> \<forall>x\<in>set (butlast (rows rep)). \<exists>r\<in>set (rows t).
             x = output_row L cs (normalize_columns t) r
             \<and> (\<forall>c. transcript_column (normalize_columns t) = Some c \<longrightarrow>
                    status_value L (normalize_columns t) c r = ''completed'')"
    by (simp add: f)
next
  show "fst (process_student_data L s input_file output_dir) =
              Inr (length (filter qualifies (grouped L (normalize_columns t) cs)))"
    by (simp add: process_student_data_run [OF assms(1,3)])
next
  assume "transcript_column (normalize_columns t) = None"
  then show "filter_completed L (normalize_columns t) (transcript_column (normalize_columns t)) =
              normalize_columns t"
    by (simp add: filter_completed_def)
qed

text \<open>The witness: a report row of the sample table, whose rows all have the status
  \<^verbatim>\<open>Completed\<close>, and the sample table without a status column.\<close>

theorem only_completed_rows_are_reported_witness:
  "load_table (disk (activity_table (replicate 51 ''L1''))) ''in.csv''
     = Inr (activity_table (replicate 51 ''L1''))
   \<and> distinct (columns (normalize_columns (activity_table (replicate 51 ''L1''))))
   \<and> resolve_columns (normalize_columns (activity_table (replicate 51 ''L1''))) = Inr activity_cols
   \<and> (path_join ''out'' (report_filename sample_lib (Str ''L1'') (Str ''2024-01-05'')),
       activity_report ''L1'' 51)
       \<in> set (new_files (disk (activity_table (replicate 51 ''L1'')))
           (snd (process_student_data sample_lib (disk (activity_table (replicate 51 ''L1'')))
                   ''in.csv'' ''out'')))
   \<and> [Str ''Ann'', Str ''Intro'', Str ''L1'', Str ''A1'', Num 2, Str ''2024-01-05'']
       \<in> set (butlast (rows (activity_report ''L1'' 51)))
   \<and> transcript_column (normalize_columns (activity_table (replicate 51 ''L1'')))
       = Some ''Transcript status''
   \<and> (\<exists>r\<in>set (rows (activity_table (replicate 51 ''L1''))).
         [Str ''Ann'', Str ''Intro'', Str ''L1'', Str ''A1'', Num 2, Str ''2024-01-05''] =
           output_row sample_lib activity_cols
             (normalize_columns (activity_table (replicate 51 ''L1''))) r
         \<and> status_value sample_lib (normalize_columns (activity_table (replicate 51 ''L1'')))
             ''Transcript status'' r = ''completed'')
   \<and> load_table (disk (plain_table (replicate 51 ''L1''))) ''in.csv''
     = Inr (plain_table (replicate 51 ''L1''))
   \<and> distinct (columns (normalize_columns (plain_table (replicate 51 ''L1''))))
   \<and> resolve_columns (normalize_columns (plain_table (replicate 51 ''L1''))) = Inr activity_cols
   \<and> transcript_column (normalize_columns (plain_table (replicate 51 ''L1''))) = None
   \<and> filter_completed sample_lib (normalize_columns (plain_table (replicate 51 ''L1'')))
        (transcript_column (normalize_columns (plain_table (replicate 51 ''L1''))))
       = normalize_columns (plain_table (replicate 51 ''L1''))"
proof -
  let ?t = "activity_table (replicate 51 ''L1'')"
  let ?u = "plain_table (replicate 51 ''L1'')"
  let ?rep = "activity_report ''L1'' 51"
  let ?x = "[Str ''Ann'', Str ''Intro'', Str ''L1'', Str ''A1'', Num 2, Str ''2024-01-05'']"
  have l: "load_table (disk ?t) ''in.csv'' = Inr ?t"
    by (rule sample_load)
  have d: "distinct (columns (normalize_columns ?t))"
    by (rule sample_distinct)
  have r: "resolve_columns (normalize_columns ?t) = Inr activity_cols"
    by (simp only: sample_normalize sample_resolve)
  have m: "(path_join ''out'' (report_filename sample_lib (Str ''L1'') (Str ''2024-01-05'')), ?rep)
       \<in> set (new_files (disk ?t) (snd (process_student_data sample_lib (disk ?t) ''in.csv'' ''out'')))"
    unfolding sample_new_files_report by simp
  have x: "?x \<in> set (butlast (rows ?rep))"
    by (rule activity_report_row)
  have tc: "transcript_column (normalize_columns ?t) = Some ''Transcript status''"
    by (simp only: sample_normalize sample_transcript)
  note th = only_completed_rows_are_reported [OF l d r, of sample_lib "''out''"]
  from th [THEN conjunct1, THEN bspec, OF m] have
    "\<forall>x\<in>set (butlast (rows ?rep)). \<exists>r\<in>set (rows ?t).
       x = output_row sample_lib activity_cols (normalize_columns ?t) r
       \<and> (\<forall>c. transcript_column (normalize_columns ?t) = Some c \<longrightarrow>
              status_value sample_lib (normalize_columns ?t) c r = ''completed'')"
    by simp
  from this [THEN bspec, OF x] tc have e: "\<exists>r\<in>set (rows ?t).
       ?x = output_row sample_lib activity_cols (normalize_columns ?t) r
       \<and> status_value sample_lib (normalize_columns ?t) ''Transcript status'' r = ''completed''"
    by blast
  have l': "load_table (disk ?u) ''in.csv'' = Inr ?u"
    by (rule sample_load)
  have d': "distinct (columns (normalize_columns ?u))"
    by (rule plain_distinct)
  have r': "resolve_columns (normalize_columns ?u) = Inr activity_cols"
    by (simp only: plain_normalize plain_resolve)
  have tc': "transcript_column (normalize_columns ?u) = None"
    by (simp only: plain_normalize plain_transcript)
  note th' = only_completed_rows_are_reported [OF l' d' r', of sample_lib "''out''"]
  have f: "filter_completed sample_lib (normalize_columns ?u) (transcript_column (normalize_columns ?u))
       = normalize_columns ?u"
    by (rule th' [THEN conjunct2, rule_format, OF tc', THEN conjunct2])
  show ?thesis
    by (intro conjI) (fact l d r m x tc e l' d' r' tc' f)+
qed

subsection \<open>C7: an unsupported file type\<close>

text \<open>
  Claim C7, as stated: for an input path whose lower-cased suffix is none of \<^verbatim>\<open>.xlsx\<close>,
  \<^verbatim>\<open>.xls\<close>, \<^verbatim>\<open>.csv\<close>, the function raises the unsupported-type \<^verbatim>\<open>ValueError\<close> before the
  output directory is created or modified. The function calls \<^verbatim>\<open>os.makedirs\<close> on its first
  line, before it looks at the suffix: for the input \<^verbatim>\<open>notes.txt\<close> and an output directory
  \<^verbatim>\<open>out\<close> that does not exist, the error is raised and \<^verbatim>\<open>out\<close> exists afterwards.
\<close>

theorem unsupported_suffix_creates_directory:
  "''out'' \<notin> dirs (disk (activity_table []))
   \<and> fst (process_student_data sample_lib (disk (activity_table [])) ''notes.txt'' ''out'')
       = Inl UnsupportedFileType
   \<and> ''out'' \<in> dirs (snd (process_student_data sample_lib (disk (activity_table [])) ''notes.txt'' ''out''))"
proof -
  have "load_table (disk (activity_table [])) ''notes.txt'' = Inl UnsupportedFileType"
    by (rule unsupported_load) (simp add: txt_suffix)
  then show ?thesis
    by (simp add: process_student_data_load_error dirs_makedirs disk_def)
qed

text \<open>
  Claim C7, amended: for an input path whose lower-cased suffix is none of \<^verbatim>\<open>.xlsx\<close>,
  \<^verbatim>\<open>.xls\<close>, \<^verbatim>\<open>.csv\<close>, the function raises the unsupported-type \<^verbatim>\<open>ValueError\<close> before
  any file is read or written; the output directory has been created by then.
\<close>

theorem unsupported_suffix_raises_after_makedirs:
  assumes "lower (path_suffix input_file) \<notin> {''.xlsx'', ''.xls'', ''.csv''}"
  shows "fst (process_student_data L s input_file output_dir) = Inl UnsupportedFileType
       \<and> files (snd (process_student_data L s input_file output_dir)) = files s
       \<and> dirs (snd (process_student_data L s input_file output_dir)) = insert output_dir (dirs s)"
  by (simp add: process_student_data_load_error [OF unsupported_load [OF assms]]
      files_makedirs dirs_makedirs)

text \<open>The witness: the input \<^verbatim>\<open>notes.txt\<close>.\<close>

theorem unsupported_suffix_raises_after_makedirs_witness:
  "lower (path_suffix ''notes.txt'') \<notin> {''.xlsx'', ''.xls'', ''.csv''}
   \<and> fst (process_student_data sample_lib (disk (activity_table [])) ''notes.txt'' ''out'')
       = Inl UnsupportedFileType
   \<and> files (snd (process_student_data sample_lib (disk (activity_table [])) ''notes.txt'' ''out''))
       = [(''in.csv'', activity_table [])]
   \<and> dirs (snd (process_student_data sample_lib (disk (activity_table [])) ''notes.txt'' ''out''))
       = {''out''}"
proof -
  have h: "lower (path_suffix ''notes.txt'') \<notin> {''.xlsx'', ''.xls'', ''.csv''}"
    by (simp add: txt_suffix)
  show ?thesis
    using h unsupported_suffix_raises_after_makedirs [OF h, of sample_lib "disk (activity_table [])" "''out''"]
    by (simp add: disk_def)
qed

subsection \<open>C8: the file name of a report\<close>

text \<open>
  Claim C8: the file of group key (learner, date) is named
  \<^verbatim>\<open>learner_<LearnerID>_<DateString>.xlsx\<close> with, in both components, every space replaced
  by an underscore and every colon by a hyphen. Line 95 does both replacements on the date;
  line 94 replaces only the spaces of the learner ID. With 51 activities of the learner
  \<^verbatim>\<open>A:B\<close> on 2024-01-05 the one file written is \<^verbatim>\<open>learner_A:B_2024-01-05.xlsx\<close>, where the
  claim gives \<^verbatim>\<open>learner_A-B_2024-01-05.xlsx\<close>.
\<close>

theorem colon_in_learner_id_is_kept:
  "map fst (new_files (disk (activity_table (replicate 51 ''A:B'')))
      (snd (process_student_data sample_lib (disk (activity_table (replicate 51 ''A:B'')))
              ''in.csv'' ''out'')))
   = [''out/learner_A:B_2024-01-05.xlsx'']"
  by (simp add: process_student_data_new_files [OF sample_load, of _ activity_cols]
      sample_normalize sample_resolve sample_keys remdups_replicate sample_source
      file_of_key_def sample_filename replace_char_def path_join_def count_list_replicate)

subsection \<open>C9: one file per group key\<close>

text \<open>
  Claim C9, as stated: no two output files share a group key, and no two distinct
  qualifying group keys produce the same output file. The file name replaces the spaces of
  the learner ID by underscores, so the learner IDs \<^verbatim>\<open>A B\<close> and \<^verbatim>\<open>A_B\<close>, 51 activities
  each on the same day, are two qualifying groups, the function returns 2, and both
  reports are written to \<^verbatim>\<open>learner_A_B_2024-01-05.xlsx\<close>.
\<close>

theorem space_and_underscore_ids_share_a_file:
  "map fst (grouped sample_lib
       (normalize_columns (activity_table (replicate 51 ''A B'' @ replicate 51 ''A_B'')))
       activity_cols)
     = [(Str ''A B'', Str ''2024-01-05''), (Str ''A_B'', Str ''2024-01-05'')]
   \<and> fst (process_student_data sample_lib
        (disk (activity_table (replicate 51 ''A B'' @ replicate 51 ''A_B''))) ''in.csv'' ''out'')
     = Inr 2
   \<and> map fst (new_files (disk (activity_table (replicate 51 ''A B'' @ replicate 51 ''A_B'')))
        (snd (process_student_data sample_lib
               (disk (activity_table (replicate 51 ''A B'' @ replicate 51 ''A_B'')))
               ''in.csv'' ''out'')))
     = [''out/learner_A_B_2024-01-05.xlsx'', ''out/learner_A_B_2024-01-05.xlsx'']"
proof -
  let ?t = "activity_table (replicate 51 ''A B'' @ replicate 51 ''A_B'')"
  have r: "resolve_columns (normalize_columns ?t) = Inr activity_cols"
    by (simp only: sample_normalize sample_resolve)
  have k: "group_keys sample_lib ?t activity_cols
      = [(Str ''A B'', Str ''2024-01-05''), (Str ''A_B'', Str ''2024-01-05'')]"
    using sample_keys_two [OF sample_order(1), of 50 50] by simp
  have a: "map fst (grouped sample_lib (normalize_columns ?t) activity_cols)
     = [(Str ''A B'', Str ''2024-01-05''), (Str ''A_B'', Str ''2024-01-05'')]"
    unfolding grouped_keys [OF r] by (simp only: sample_normalize k)
  have n: "new_files (disk ?t) (snd (process_student_data sample_lib (disk ?t) ''in.csv'' ''out''))
     = [(''out/learner_A_B_2024-01-05.xlsx'', activity_report ''A_B'' 51),
        (''out/learner_A_B_2024-01-05.xlsx'', activity_report ''A B'' 51)]"
    unfolding sample_new_files_two [OF sample_order(1)] sample_paths by (rule refl)
  have c: "map fst (new_files (disk ?t)
      (snd (process_student_data sample_lib (disk ?t) ''in.csv'' ''out'')))
     = [''out/learner_A_B_2024-01-05.xlsx'', ''out/learner_A_B_2024-01-05.xlsx'']"
    unfolding n by simp
  have "length (new_files (disk ?t)
      (snd (process_student_data sample_lib (disk ?t) ''in.csv'' ''out''))) = 2"
    unfolding n by simp
  then have b: "fst (process_student_data sample_lib (disk ?t) ''in.csv'' ''out'') = Inr 2"
    using process_student_data_run [OF sample_load r, of sample_lib "''out''"]
    by (simp add: new_files_def)
  show ?thesis
    by (intro conjI) (fact a b c)+
qed

text \<open>
  Claim C9, amended: the keys of the groups are pairwise distinct, so no group key is
  written twice; and two group keys are written to different files whenever their dates
  differ or their learner IDs still differ after the spaces are replaced by underscores.
\<close>

theorem distinct_keys_distinct_files:
  assumes "load_table s input_file = Inr t"
    and "distinct (columns (normalize_columns t))"
    and "resolve_columns (normalize_columns t) = Inr cs"
    and "k1 \<in> set (map fst (grouped L (normalize_columns t) cs))"
    and "k2 \<in> set (map fst (grouped L (normalize_columns t) cs))"
    and "safe_learner L (fst k1) \<noteq> safe_learner L (fst k2) \<or> snd k1 \<noteq> snd k2"
  shows "path_join output_dir (report_filename L (fst k1) (snd k1)) \<noteq>
           path_join output_dir (report_filename L (fst k2) (snd k2))
       \<and> distinct (map fst (grouped L (normalize_columns t) cs))"
proof
  let ?df = "normalize_columns t"
  from assms(4,5) have "k1 \<in> set (group_keys L ?df cs)" "k2 \<in> set (group_keys L ?df cs)"
    by (simp_all only: grouped_keys [OF assms(3)])
  then obtain c1 c2 where s: "snd k1 = Str (date_string L (date_series L ?df cs) c1)"
    "snd k2 = Str (date_string L (date_series L ?df cs) c2)"
    by (metis group_keys_date)
  show "path_join output_dir (report_filename L (fst k1) (snd k1)) \<noteq>
           path_join output_dir (report_filename L (fst k2) (snd k2))"
  proof
    assume "path_join output_dir (report_filename L (fst k1) (snd k1)) =
           path_join output_dir (report_filename L (fst k2) (snd k2))"
    from report_path_inject [OF this [unfolded s]] assms(6) show False
      by (simp add: s)
  qed
  show "distinct (map fst (grouped L (normalize_columns t) cs))"
    by (rule grouped_keys_distinct)
qed

text \<open>The witness: the learners \<^verbatim>\<open>L1\<close> and \<^verbatim>\<open>L2\<close>, 51 activities each on the same day.\<close>

theorem distinct_keys_distinct_files_witness:
  "load_table (disk (activity_table (replicate 51 ''L1'' @ replicate 51 ''L2''))) ''in.csv''
     = Inr (activity_table (replicate 51 ''L1'' @ replicate 51 ''L2''))
   \<and> distinct (columns (normalize_columns (activity_table (replicate 51 ''L1'' @ replicate 51 ''L2''))))
   \<and> resolve_columns (normalize_columns (activity_table (replicate 51 ''L1'' @ replicate 51 ''L2'')))
       = Inr activity_cols
   \<and> (Str ''L1'', Str ''2024-01-05'')
       \<in> set (map fst (grouped sample_lib
            (normalize_columns (activity_table (replicate 51 ''L1'' @ replicate 51 ''L2'')))
            activity_cols))
   \<and> (Str ''L2'', Str ''2024-01-05'')
       \<in> set (map fst (grouped sample_lib
            (normalize_columns (activity_table (replicate 51 ''L1'' @ replicate 51 ''L2'')))
            activity_cols))
   \<and> safe_learner sample_lib (Str ''L1'') \<noteq> safe_learner sample_lib (Str ''L2'')
   \<and> path_join ''out'' (report_filename sample_lib (Str ''L1'') (Str ''2024-01-05'')) \<noteq>
       path_join ''out'' (report_filename sample_lib (Str ''L2'') (Str ''2024-01-05''))
   \<and> distinct (map fst (grouped sample_lib
        (normalize_columns (activity_table (replicate 51 ''L1'' @ replicate 51 ''L2'')))
        activity_cols))"
proof -
  let ?t = "activity_table (replicate 51 ''L1'' @ replicate 51 ''L2'')"
  have l: "load_table (disk ?t) ''in.csv'' = Inr ?t"
    by (rule sample_load)
  have d: "distinct (columns (normalize_columns ?t))"
    by (rule sample_distinct)
  have r: "resolve_columns (normalize_columns ?t) = Inr activity_cols"
    by (simp only: sample_normalize sample_resolve)
  have k: "group_keys sample_lib ?t activity_cols
      = [(Str ''L1'', Str ''2024-01-05''), (Str ''L2'', Str ''2024-01-05'')]"
    using sample_keys_two [OF sample_order(2), of 50 50] by simp
  have g: "map fst (grouped sample_lib (normalize_columns ?t) activity_cols)
     = [(Str ''L1'', Str ''2024-01-05''), (Str ''L2'', Str ''2024-01-05'')]"
    unfolding grouped_keys [OF r] by (simp only: sample_normalize k)
  have k1: "(Str ''L1'', Str ''2024-01-05'')
       \<in> set (map fst (grouped sample_lib (normalize_columns ?t) activity_cols))"
    and k2: "(Str ''L2'', Str ''2024-01-05'')
       \<in> set (map fst (grouped sample_lib (normalize_columns ?t) activity_cols))"
    unfolding g by simp_all
  have s: "safe_learner sample_lib (Str ''L1'') \<noteq> safe_learner sample_lib (Str ''L2'')"
    by (simp add: safe_learner_def astype_str_def replace_char_def)
  have s': "safe_learner sample_lib (fst (Str ''L1'', Str ''2024-01-05'')) \<noteq>
      safe_learner sample_lib (fst (Str ''L2'', Str ''2024-01-05''))
      \<or> snd (Str ''L1'', Str ''2024-01-05'') \<noteq> snd (Str ''L2'', Str ''2024-01-05'')"
    using s by simp
  note th = distinct_keys_distinct_files [OF l d r k1 k2 s', of "''out''"]
  have p: "path_join ''out'' (report_filename sample_lib (Str ''L1'') (Str ''2024-01-05'')) \<noteq>
       path_join ''out'' (report_filename sample_lib (Str ''L2'') (Str ''2024-01-05''))"
    using th [THEN conjunct1] by simp
  have q: "distinct (map fst (grouped sample_lib (normalize_columns ?t) activity_cols))"
    by (rule th [THEN conjunct2])
  show ?thesis
    by (intro conjI) (fact l d r k1 k2 s p q)+
qed

subsection \<open>C10: the cells of a report\<close>



end
